theory Spec2Isabelle
  imports Complex_Main
begin

section \<open>Python values the sensors rely on\<close>

text \<open>
  Python floats are modelled as \<^typ>\<open>real\<close>: arithmetic is exact, and the
  comparisons, \<open>min\<close> and \<open>max\<close> of the source are those of HOL.
  The exceptions the modelled code can raise are values of \<open>py_error\<close>.
\<close>

datatype py_error = ValueError | KeyError | IndexError | ZeroDivisionError

text \<open>
  The module \<open>random\<close> is a generator that the sensors draw from. Its state is the
  sequence of outputs that \<open>random.random()\<close> will produce (each in \<open>[0, 1)\<close>), the
  sequence of raw integers behind \<open>random.choice\<close>, and one cursor for each.
  Every draw returns the value and the advanced generator.
\<close>

record rng =
  floats :: "nat \<Rightarrow> real"
  fpos :: nat
  ints :: "nat \<Rightarrow> nat"
  ipos :: nat

definition rng_ok :: "rng \<Rightarrow> bool" where
  "rng_ok g = (\<forall>i. 0 \<le> floats g i \<and> floats g i < 1)"

definition rng_random :: "rng \<Rightarrow> real \<times> rng" where
  "rng_random g = (floats g (fpos g), g\<lparr>fpos := Suc (fpos g)\<rparr>)"

text \<open>\<open>random.uniform(a, b)\<close> is \<open>a + (b - a) * random()\<close>.\<close>

definition rng_uniform :: "real \<Rightarrow> real \<Rightarrow> rng \<Rightarrow> real \<times> rng" where
  "rng_uniform a b g = (case rng_random g of (u, g') \<Rightarrow> (a + (b - a) * u, g'))"

text \<open>
  \<open>round(x, n)\<close> on a float rounds to \<open>n\<close> decimals, a tie going to the even
  neighbour.
\<close>

definition round_half_even :: "real \<Rightarrow> int" where
  "round_half_even y =
     (let f = \<lfloor>y\<rfloor>; d = y - of_int f
      in if d < 1 / 2 then f
         else if 1 / 2 < d then f + 1
         else if even f then f else f + 1)"

definition round_py :: "real \<Rightarrow> nat \<Rightarrow> real" where
  "round_py x n = of_int (round_half_even (x * 10 ^ n)) / 10 ^ n"

text \<open>
  Where a claim depends on the rounding of float arithmetic, each operation of the source
  is followed by \<open>float_round\<close>: the nearest double, a tie going to the even significand
  (53 significant bits). A float literal \<open>c\<close> of the source is \<open>float_round c\<close>. Overflow to
  infinity and the subnormal range are outside this model.
\<close>

definition float_round :: "real \<Rightarrow> real" where
  "float_round x =
     (if x = 0 then 0
      else (let e = \<lfloor>log 2 \<bar>x\<bar>\<rfloor>; q = 2 powr (of_int e - 52)
            in of_int (round_half_even (x / q)) * q))"

section \<open>SensorBase\<close>

record SensorBase =
  sensor_type :: string
  sensor_id :: string
  device_id :: string

text \<open>
  \<open>SensorBase.__init__\<close>: the two fresh UUID strings that \<open>uuid.uuid4()\<close> would give
  are inputs; a missing or empty device id is replaced by the second.
\<close>

definition SensorBase_init :: "string \<Rightarrow> string option \<Rightarrow> string \<Rightarrow> string \<Rightarrow> SensorBase" where
  "SensorBase_init stype dev uuid1 uuid2 =
     \<lparr>sensor_type = stype, sensor_id = uuid1,
      device_id = (case dev of None \<Rightarrow> uuid2 | Some d \<Rightarrow> if d = [] then uuid2 else d)\<rparr>"

section \<open>FillLevelSensor\<close>

record FillLevelSensor =
  fl_base :: SensorBase
  fill_level :: real
  fill_rate :: real
  capacity :: real
  fill_rate_variation :: real
  overflow_threshold :: real

record FillLevelData =
  fld_value :: real
  fld_unit :: string
  fld_status :: string

record FillLevelReading =
  fillLevel :: real
  fl_unit :: string
  fl_capacity :: real
  isFull :: bool
  isOverflowing :: bool
  fl_status :: string
  fillLevelData :: FillLevelData

definition FillLevelSensor_init ::
  "string option \<Rightarrow> real \<Rightarrow> real \<Rightarrow> real \<Rightarrow> real \<Rightarrow> real \<Rightarrow> string \<Rightarrow> string \<Rightarrow> FillLevelSensor" where
  "FillLevelSensor_init dev initial_fill_level rate cap variation threshold uuid1 uuid2 =
     \<lparr>fl_base = SensorBase_init ''fill_level'' dev uuid1 uuid2,
      fill_level = min initial_fill_level cap,
      fill_rate = rate,
      capacity = cap,
      fill_rate_variation = variation,
      overflow_threshold = threshold\<rparr>"

definition FillLevelSensor_read :: "FillLevelSensor \<Rightarrow> rng \<Rightarrow> FillLevelReading \<times> FillLevelSensor \<times> rng" where
  "FillLevelSensor_read s g =
     (case rng_uniform (- fill_rate_variation s) (fill_rate_variation s) g of (variation, g') \<Rightarrow>
      let current_fill_rate = fill_rate s + variation;
          s' = s\<lparr>fill_level := min (fill_level s + current_fill_rate) (capacity s)\<rparr>;
          level = round_py (fill_level s') 2;
          is_full = (level \<ge> overflow_threshold s');
          is_overflowing = (level \<ge> capacity s');
          status = (if is_overflowing then ''overflow'' else if is_full then ''full'' else ''normal'')
      in (\<lparr>fillLevel = level, fl_unit = ''percentage'', fl_capacity = capacity s',
           isFull = is_full, isOverflowing = is_overflowing, fl_status = status,
           fillLevelData = \<lparr>fld_value = level, fld_unit = ''percentage'', fld_status = status\<rparr>\<rparr>,
          s', g'))"

definition set_fill_level :: "FillLevelSensor \<Rightarrow> real \<Rightarrow> FillLevelSensor" where
  "set_fill_level s level = s\<lparr>fill_level := min (max 0 level) (capacity s)\<rparr>"

definition empty_bin :: "FillLevelSensor \<Rightarrow> FillLevelSensor" where
  "empty_bin s = s\<lparr>fill_level := 0\<rparr>"

section \<open>TemperatureSensor\<close>

record TemperatureSensor =
  t_base :: SensorBase
  base_temperature :: real
  normal_fluctuation :: real
  anomaly_threshold_high :: real
  anomaly_threshold_low :: real
  anomaly_probability :: real
  normal_readings_before_anomaly :: int
  current_temperature :: real
  normal_readings_count :: int

record TemperatureReading =
  temperature :: real
  t_unit :: string
  isAnomaly :: bool
  anomalyType :: string

definition TemperatureSensor_init ::
  "string option \<Rightarrow> real \<Rightarrow> real \<Rightarrow> real \<Rightarrow> real \<Rightarrow> real \<Rightarrow> int \<Rightarrow> string \<Rightarrow> string \<Rightarrow> TemperatureSensor" where
  "TemperatureSensor_init dev base fluct high low prob nbefore uuid1 uuid2 =
     \<lparr>t_base = SensorBase_init ''temperature'' dev uuid1 uuid2,
      base_temperature = base,
      normal_fluctuation = fluct,
      anomaly_threshold_high = high,
      anomaly_threshold_low = low,
      anomaly_probability = prob,
      normal_readings_before_anomaly = nbefore,
      current_temperature = base,
      normal_readings_count = 0\<rparr>"

text \<open>
  The first part of \<open>read\<close>: \<open>force_anomaly or random.random() < anomaly_probability\<close>.
  Python's \<open>or\<close> does not evaluate its right operand when the left one holds, so a
  forced anomaly draws nothing here.
\<close>

definition temperature_is_anomaly :: "TemperatureSensor \<Rightarrow> rng \<Rightarrow> bool \<times> rng" where
  "temperature_is_anomaly s g =
     (let force_anomaly = (normal_readings_count s \<ge> normal_readings_before_anomaly s)
      in if force_anomaly then (True, g)
         else (case rng_random g of (u, g') \<Rightarrow> (u < anomaly_probability s, g')))"

text \<open>
  \<open>random.uniform(a, b)\<close> in float arithmetic: \<open>a + (b - a) * random()\<close>, each
  operation rounded.
\<close>

definition float_uniform :: "real \<Rightarrow> real \<Rightarrow> rng \<Rightarrow> real \<times> rng" where
  "float_uniform a b g =
     (case rng_random g of (u, g') \<Rightarrow>
        (float_round (a + float_round (float_round (b - a) * u)), g'))"

text \<open>
  The two branches of \<open>read\<close> that update the sensor, in float arithmetic: the sums
  \<open>anomaly_threshold_high + offset\<close> and \<open>anomaly_threshold_low - offset\<close> and the drift
  \<open>(0.8 * current + 0.2 * base) + fluctuation\<close> are rounded after each operation, and
  the literals \<open>0.7\<close>, \<open>0.8\<close> and \<open>0.2\<close> are the doubles nearest to them.
\<close>

definition temperature_update :: "TemperatureSensor \<Rightarrow> bool \<Rightarrow> rng \<Rightarrow> TemperatureSensor \<times> rng" where
  "temperature_update s is_anomaly g =
     (if is_anomaly then
        (let s0 = s\<lparr>normal_readings_count := 0\<rparr>
         in case rng_random g of (p, g1) \<Rightarrow>
            if p < float_round 0.7 then
              (case float_uniform 0 20 g1 of (d, g2) \<Rightarrow>
                 (s0\<lparr>current_temperature := float_round (anomaly_threshold_high s0 + d)\<rparr>, g2))
            else
              (case float_uniform 0 10 g1 of (d, g2) \<Rightarrow>
                 (s0\<lparr>current_temperature := float_round (anomaly_threshold_low s0 - d)\<rparr>, g2)))
      else
        (let s0 = s\<lparr>normal_readings_count := normal_readings_count s + 1\<rparr>
         in case float_uniform (- normal_fluctuation s0) (normal_fluctuation s0) g of (fluctuation, g1) \<Rightarrow>
            (s0\<lparr>current_temperature :=
                   float_round
                     (float_round (float_round (float_round 0.8 * current_temperature s0)
                                   + float_round (float_round 0.2 * base_temperature s0))
                      + fluctuation)\<rparr>, g1)))"

definition TemperatureSensor_read :: "TemperatureSensor \<Rightarrow> rng \<Rightarrow> TemperatureReading \<times> TemperatureSensor \<times> rng" where
  "TemperatureSensor_read s g =
     (case temperature_is_anomaly s g of (is_anomaly, g1) \<Rightarrow>
      case temperature_update s is_anomaly g1 of (s', g2) \<Rightarrow>
      let is_high_anomaly = (current_temperature s' > anomaly_threshold_high s');
          is_low_anomaly = (current_temperature s' < anomaly_threshold_low s')
      in (\<lparr>temperature = round_py (current_temperature s') 2,
           t_unit = ''Celsius'',
           isAnomaly = (is_high_anomaly \<or> is_low_anomaly),
           anomalyType = (if is_high_anomaly then ''high''
                          else if is_low_anomaly then ''low'' else ''none'')\<rparr>,
          s', g2))"

definition set_temperature :: "TemperatureSensor \<Rightarrow> real \<Rightarrow> TemperatureSensor" where
  "set_temperature s t = s\<lparr>current_temperature := t\<rparr>"

section \<open>GPSSensor\<close>

record GPSSensor =
  gps_base :: SensorBase
  latitude :: real
  longitude :: real
  movement_range :: real

record GPSLocation =
  lat :: real
  lon :: real
  alt :: real
  accuracy :: real

record GPSReading =
  r_latitude :: real
  r_longitude :: real
  location :: GPSLocation

definition GPSSensor_init :: "string option \<Rightarrow> real \<Rightarrow> real \<Rightarrow> real \<Rightarrow> string \<Rightarrow> string \<Rightarrow> GPSSensor" where
  "GPSSensor_init dev initial_latitude initial_longitude mrange uuid1 uuid2 =
     \<lparr>gps_base = SensorBase_init ''gps'' dev uuid1 uuid2,
      latitude = initial_latitude,
      longitude = initial_longitude,
      movement_range = mrange\<rparr>"

definition GPSSensor_read :: "GPSSensor \<Rightarrow> rng \<Rightarrow> GPSReading \<times> GPSSensor \<times> rng" where
  "GPSSensor_read s g =
     (case rng_uniform (- movement_range s) (movement_range s) g of (dlat, g1) \<Rightarrow>
      case rng_uniform (- movement_range s) (movement_range s) g1 of (dlon, g2) \<Rightarrow>
      let s1 = s\<lparr>latitude := latitude s + dlat\<rparr>;
          s2 = s1\<lparr>longitude := longitude s1 + dlon\<rparr>;
          s3 = s2\<lparr>latitude := max (- 90) (min 90 (latitude s2))\<rparr>;
          s4 = s3\<lparr>longitude := max (- 180) (min 180 (longitude s3))\<rparr>;
          la = round_py (latitude s4) 6;
          lo = round_py (longitude s4) 6
      in (\<lparr>r_latitude = la, r_longitude = lo,
           location = \<lparr>lat = la, lon = lo, alt = 0, accuracy = 5\<rparr>\<rparr>,
          s4, g2))"

definition set_position :: "GPSSensor \<Rightarrow> real \<Rightarrow> real \<Rightarrow> GPSSensor" where
  "set_position s la lo =
     s\<lparr>latitude := max (- 90) (min 90 la), longitude := max (- 180) (min 180 lo)\<rparr>"

section \<open>HumiditySensor\<close>

record HumiditySensor =
  hum_base :: SensorBase
  base_humidity :: real
  humidity_variation :: real
  high_humidity_threshold :: real
  mold_risk_threshold :: real
  hum_fill_level_correlation :: real
  current_humidity :: real

record HumidityData =
  hd_value :: real
  hd_unit :: string
  hd_status :: string
  hd_moldRisk :: real

record HumidityReading =
  humidity :: real
  hum_unit :: string
  isHigh :: bool
  isMoldRisk :: bool
  moldRiskPercentage :: real
  hum_status :: string
  humidityData :: HumidityData

definition HumiditySensor_init ::
  "string option \<Rightarrow> real \<Rightarrow> real \<Rightarrow> real \<Rightarrow> real \<Rightarrow> real \<Rightarrow> string \<Rightarrow> string \<Rightarrow> HumiditySensor" where
  "HumiditySensor_init dev base variation high mold corr uuid1 uuid2 =
     \<lparr>hum_base = SensorBase_init ''humidity'' dev uuid1 uuid2,
      base_humidity = base,
      humidity_variation = variation,
      high_humidity_threshold = high,
      mold_risk_threshold = mold,
      hum_fill_level_correlation = corr,
      current_humidity = base\<rparr>"

text \<open>
  The mold risk percentage divides by \<open>100.0 - mold_risk_threshold\<close>; a float division
  by zero raises \<open>ZeroDivisionError\<close> in Python, so the division is a branch of the model.
\<close>

definition humidity_mold_risk :: "HumiditySensor \<Rightarrow> real \<Rightarrow> py_error + real" where
  "humidity_mold_risk s h =
     (if h > mold_risk_threshold s then
        (if 100 - mold_risk_threshold s = 0 then Inl ZeroDivisionError
         else Inr (min 100 (((h - mold_risk_threshold s) / (100 - mold_risk_threshold s)) * 100)))
      else Inr 0)"

definition HumiditySensor_read ::
  "HumiditySensor \<Rightarrow> real option \<Rightarrow> rng \<Rightarrow> py_error + (HumidityReading \<times> HumiditySensor \<times> rng)" where
  "HumiditySensor_read s fill_level_arg g =
     (let base = (case fill_level_arg of
                    Some fl \<Rightarrow> (let fill_factor = min (fl / 100) 1 * hum_fill_level_correlation s
                               in base_humidity s + fill_factor * 30)
                  | None \<Rightarrow> base_humidity s)
      in case rng_uniform (- humidity_variation s) (humidity_variation s) g of (variation, g1) \<Rightarrow>
         let h = max 0 (min 100 (base + variation));
             s' = s\<lparr>current_humidity := h\<rparr>;
             is_high = (h > high_humidity_threshold s');
             is_mold_risk = (h > mold_risk_threshold s')
         in (case humidity_mold_risk s' h of
               Inl e \<Rightarrow> Inl e
             | Inr mold_risk \<Rightarrow>
                 (let status = (if is_mold_risk then ''mold_risk''
                                else if is_high then ''high'' else ''normal'')
                  in Inr (\<lparr>humidity = round_py h 2, hum_unit = ''percentage'',
                           isHigh = is_high, isMoldRisk = is_mold_risk,
                           moldRiskPercentage = round_py mold_risk 2,
                           hum_status = status,
                           humidityData = \<lparr>hd_value = round_py h 2, hd_unit = ''percentage'',
                                            hd_status = status, hd_moldRisk = round_py mold_risk 2\<rparr>\<rparr>,
                          s', g1))))"

definition set_humidity :: "HumiditySensor \<Rightarrow> real \<Rightarrow> HumiditySensor" where
  "set_humidity s h = s\<lparr>current_humidity := max 0 (min 100 h)\<rparr>"

section \<open>Weighted and uniform selection\<close>

text \<open>
  \<open>random.choices(population, weights=w, k=1)[0]\<close> accumulates the weights, refuses an
  empty population (\<open>cum_weights[-1]\<close>), a length mismatch and a total that is not
  positive, and then selects \<open>population[bisect(cum_weights, random() * total, 0, n - 1)]\<close>,
  where \<open>bisect\<close> is the binary search \<open>bisect_right\<close>.
\<close>

fun accumulate_from :: "real \<Rightarrow> real list \<Rightarrow> real list" where
  "accumulate_from acc [] = []"
| "accumulate_from acc (w # ws) = (acc + w) # accumulate_from (acc + w) ws"

definition accumulate :: "real list \<Rightarrow> real list" where
  "accumulate ws = accumulate_from 0 ws"

function bisect_right :: "real list \<Rightarrow> real \<Rightarrow> nat \<Rightarrow> nat \<Rightarrow> nat" where
  "bisect_right a x lo hi =
     (if lo < hi then
        (if x < a ! ((lo + hi) div 2) then bisect_right a x lo ((lo + hi) div 2)
         else bisect_right a x ((lo + hi) div 2 + 1) hi)
      else lo)"
  by pat_completeness auto
termination
  by (relation "measure (\<lambda>(a, x, lo, hi). hi - lo)") auto

declare bisect_right.simps [simp del]

definition choices :: "'a list \<Rightarrow> real list \<Rightarrow> rng \<Rightarrow> py_error + ('a \<times> rng)" where
  "choices population weights g =
     (let n = length population; cum_weights = accumulate weights
      in if length cum_weights \<noteq> n then Inl ValueError
         else if cum_weights = [] then Inl IndexError
         else (let total = last cum_weights
               in if total \<le> 0 then Inl ValueError
                  else (case rng_random g of (u, g') \<Rightarrow>
                          Inr (population ! bisect_right cum_weights (u * total) 0 (n - 1), g'))))"

text \<open>
  \<open>random.choice(seq)\<close> raises \<open>IndexError\<close> on an empty sequence and otherwise returns
  \<open>seq[_randbelow(len(seq))]\<close>; the index below \<open>len(seq)\<close> is taken from the integer
  stream of the generator.
\<close>

definition rng_randbelow :: "nat \<Rightarrow> rng \<Rightarrow> nat \<times> rng" where
  "rng_randbelow n g = (ints g (ipos g) mod n, g\<lparr>ipos := Suc (ipos g)\<rparr>)"

definition choice :: "'a list \<Rightarrow> rng \<Rightarrow> py_error + ('a \<times> rng)" where
  "choice seq g =
     (if seq = [] then Inl IndexError
      else (case rng_randbelow (length seq) g of (i, g') \<Rightarrow> Inr (seq ! i, g')))"

text \<open>\<open>d[k]\<close> on a dictionary kept as an association list in insertion order.\<close>

definition dict_index :: "('k \<times> 'v) list \<Rightarrow> 'k \<Rightarrow> py_error + 'v" where
  "dict_index d k = (case map_of d k of None \<Rightarrow> Inl KeyError | Some v \<Rightarrow> Inr v)"

section \<open>AirQualitySensor\<close>

record AqiCategory =
  aqi_range :: "int \<times> int"
  color :: string

definition AQI_CATEGORIES :: "(string \<times> AqiCategory) list" where
  "AQI_CATEGORIES =
     [(''good'', \<lparr>aqi_range = (0, 50), color = ''green''\<rparr>),
      (''moderate'', \<lparr>aqi_range = (51, 100), color = ''yellow''\<rparr>),
      (''unhealthy_sensitive'', \<lparr>aqi_range = (101, 150), color = ''orange''\<rparr>),
      (''unhealthy'', \<lparr>aqi_range = (151, 200), color = ''red''\<rparr>),
      (''very_unhealthy'', \<lparr>aqi_range = (201, 300), color = ''purple''\<rparr>),
      (''hazardous'', \<lparr>aqi_range = (301, 500), color = ''maroon''\<rparr>)]"

record AirQualitySensor =
  aq_base :: SensorBase
  base_aqi :: real
  aqi_variation :: real
  aq_fill_level_correlation :: real
  temperature_correlation :: real
  current_aqi :: real

record Pollutants =
  p_co2 :: real
  p_voc :: real
  p_pm25 :: real

record AirQualityData =
  aqd_aqi :: real
  aqd_category :: string
  aqd_color :: string
  pollutants :: Pollutants

record AirQualityReading =
  aqi :: real
  category :: string
  aq_color :: string
  co2 :: real
  co2Unit :: string
  voc :: real
  vocUnit :: string
  pm25 :: real
  pm25Unit :: string
  aq_status :: string
  airQualityData :: AirQualityData

definition AirQualitySensor_init ::
  "string option \<Rightarrow> real \<Rightarrow> real \<Rightarrow> real \<Rightarrow> real \<Rightarrow> string \<Rightarrow> string \<Rightarrow> AirQualitySensor" where
  "AirQualitySensor_init dev base variation fcorr tcorr uuid1 uuid2 =
     \<lparr>aq_base = SensorBase_init ''air_quality'' dev uuid1 uuid2,
      base_aqi = base,
      aqi_variation = variation,
      aq_fill_level_correlation = fcorr,
      temperature_correlation = tcorr,
      current_aqi = base\<rparr>"

text \<open>
  The loop of \<open>read\<close> over \<open>AQI_CATEGORIES.items()\<close>: the first category whose range
  holds the value, and the value of \<open>category\<close> before the loop when none does.
\<close>

fun category_loop :: "(string \<times> AqiCategory) list \<Rightarrow> real \<Rightarrow> string \<Rightarrow> string" where
  "category_loop [] a category_before = category_before"
| "category_loop ((cat, props) # rest) a category_before =
     (if of_int (fst (aqi_range props)) \<le> a \<and> a \<le> of_int (snd (aqi_range props)) then cat
      else category_loop rest a category_before)"

definition AirQualitySensor_read ::
  "AirQualitySensor \<Rightarrow> real option \<Rightarrow> real option \<Rightarrow> rng
     \<Rightarrow> py_error + (AirQualityReading \<times> AirQualitySensor \<times> rng)" where
  "AirQualitySensor_read s fill_level_arg temperature_arg g =
     (let base0 = base_aqi s;
          base1 = (case fill_level_arg of
                     Some fl \<Rightarrow> (let fill_factor = min (fl / 100) 1 * aq_fill_level_correlation s
                                in base0 + fill_factor * 100)
                   | None \<Rightarrow> base0);
          base2 = (case temperature_arg of
                     Some t \<Rightarrow> (let temp_factor = max 0 ((t - 25) / 25) * temperature_correlation s
                               in base1 + temp_factor * 50)
                   | None \<Rightarrow> base1)
      in case rng_uniform (- aqi_variation s) (aqi_variation s) g of (variation, g1) \<Rightarrow>
         (let a = max 0 (min 500 (base2 + variation));
              s' = s\<lparr>current_aqi := a\<rparr>;
              cat = category_loop AQI_CATEGORIES a ''good'';
              co2_level = 400 + a * 2;
              voc_level = 0.5 + a * 0.01;
              pm25_level = 12 + a * 0.24
          in (case dict_index AQI_CATEGORIES cat of
                Inl e \<Rightarrow> Inl e
              | Inr props \<Rightarrow>
                  Inr (\<lparr>aqi = round_py a 2, category = cat, aq_color = color props,
                        co2 = round_py co2_level 2, co2Unit = ''ppm'',
                        voc = round_py voc_level 2, vocUnit = ''ppm'',
                        pm25 = round_py pm25_level 2, pm25Unit = ''ug/m3'',
                        aq_status = cat,
                        airQualityData =
                          \<lparr>aqd_aqi = round_py a 2, aqd_category = cat, aqd_color = color props,
                           pollutants = \<lparr>p_co2 = round_py co2_level 2, p_voc = round_py voc_level 2,
                                         p_pm25 = round_py pm25_level 2\<rparr>\<rparr>\<rparr>,
                       s', g1))))"

definition set_aqi :: "AirQualitySensor \<Rightarrow> real \<Rightarrow> AirQualitySensor" where
  "set_aqi s a = s\<lparr>current_aqi := max 0 (min 500 a)\<rparr>"

text \<open>\<open>get_category_for_aqi\<close>: the same loop, returning \<open>hazardous\<close> when no range matches.\<close>

definition get_category_for_aqi :: "real \<Rightarrow> string" where
  "get_category_for_aqi a = category_loop AQI_CATEGORIES a ''hazardous''"

section \<open>OdorSensor\<close>

record OdorType =
  description :: string
  intensity_range :: "real \<times> real"
  correlation_with_fill :: real

definition ODOR_TYPES :: "(string \<times> OdorType) list" where
  "ODOR_TYPES =
     [(''organic'', \<lparr>description = ''Decomposing organic waste'',
                     intensity_range = (0.1, 1.0), correlation_with_fill = 0.8\<rparr>),
      (''chemical'', \<lparr>description = ''Chemical waste or cleaning products'',
                      intensity_range = (0.3, 0.9), correlation_with_fill = 0.5\<rparr>),
      (''mold'', \<lparr>description = ''Mold or mildew growth'',
                  intensity_range = (0.2, 0.7), correlation_with_fill = 0.6\<rparr>),
      (''none'', \<lparr>description = ''No significant odor'',
                  intensity_range = (0.0, 0.1), correlation_with_fill = 0.1\<rparr>)]"

record OdorSensor =
  od_base :: SensorBase
  odor_threshold :: real
  od_fill_level_correlation :: real
  odor_variation :: real
  current_odor_type :: string
  current_intensity :: real

record OdorData =
  od_type :: string
  od_intensity :: real
  od_data_status :: string

record OdorReading =
  odorType :: string
  odorDescription :: string
  intensity :: real
  od_unit :: string
  isSignificant :: bool
  od_status :: string
  odorData :: OdorData

definition OdorSensor_init :: "string option \<Rightarrow> real \<Rightarrow> real \<Rightarrow> real \<Rightarrow> string \<Rightarrow> string \<Rightarrow> OdorSensor" where
  "OdorSensor_init dev threshold corr variation uuid1 uuid2 =
     \<lparr>od_base = SensorBase_init ''odor'' dev uuid1 uuid2,
      odor_threshold = threshold,
      od_fill_level_correlation = corr,
      odor_variation = variation,
      current_odor_type = ''none'',
      current_intensity = 0\<rparr>"

text \<open>The weight vector that \<open>read\<close> hands to \<open>random.choices\<close>.\<close>

definition odor_weights :: "OdorSensor \<Rightarrow> real option \<Rightarrow> real list" where
  "odor_weights s fill_level_arg =
     (case fill_level_arg of
        Some fl \<Rightarrow>
          (let fill_factor = min (fl / 100) 1 * od_fill_level_correlation s
           in if fill_factor > 0.8 then [0.5, 0.3, 0.15, 0.05]
              else if fill_factor > 0.5 then [0.3, 0.2, 0.3, 0.2]
              else if fill_factor > 0.2 then [0.1, 0.2, 0.2, 0.5]
              else [0.05, 0.1, 0.1, 0.75])
      | None \<Rightarrow> [0.3, 0.2, 0.2, 0.3])"

definition odor_population :: "real option \<Rightarrow> string list" where
  "odor_population fill_level_arg =
     (case fill_level_arg of
        Some fl \<Rightarrow> [''organic'', ''chemical'', ''mold'', ''none'']
      | None \<Rightarrow> map fst ODOR_TYPES)"

definition OdorSensor_read ::
  "OdorSensor \<Rightarrow> real option \<Rightarrow> rng \<Rightarrow> py_error + (OdorReading \<times> OdorSensor \<times> rng)" where
  "OdorSensor_read s fill_level_arg g =
     (case choices (odor_population fill_level_arg) (odor_weights s fill_level_arg) g of
        Inl e \<Rightarrow> Inl e
      | Inr (odor_type, g1) \<Rightarrow>
          (case dict_index ODOR_TYPES odor_type of
             Inl e \<Rightarrow> Inl e
           | Inr props \<Rightarrow>
               (case rng_uniform (fst (intensity_range props)) (snd (intensity_range props)) g1 of
                  (base_intensity, g2) \<Rightarrow>
                (case rng_uniform (- odor_variation s) (odor_variation s) g2 of
                  (variation, g3) \<Rightarrow>
                 (let i = max 0 (min 1 (base_intensity + variation));
                      s' = s\<lparr>current_odor_type := odor_type, current_intensity := i\<rparr>;
                      is_significant = (i > odor_threshold s');
                      status = (if is_significant then ''significant'' else ''normal'')
                  in Inr (\<lparr>odorType = odor_type,
                           odorDescription = description props,
                           intensity = round_py i 3,
                           od_unit = ''normalized'',
                           isSignificant = is_significant,
                           od_status = status,
                           odorData = \<lparr>od_type = odor_type, od_intensity = round_py i 3,
                                       od_data_status = status\<rparr>\<rparr>,
                          s', g3))))))"

definition set_odor :: "OdorSensor \<Rightarrow> string \<Rightarrow> real \<Rightarrow> OdorSensor" where
  "set_odor s odor_type i =
     (if odor_type \<in> set (map fst ODOR_TYPES)
      then s\<lparr>current_odor_type := odor_type, current_intensity := max 0 (min 1 i)\<rparr>
      else s)"

section \<open>Token ledger\<close>

text \<open>
  Modelled from the spec: the module \<open>token_system.token_manager\<close> (classes
  \<open>TokenManager\<close> and \<open>User\<close>) is imported by \<open>main.py\<close> but is not among the source
  files. The definitions of this section follow sections 3 and 4.5 of the specification
  and the attribute names that \<open>main.py\<close> uses (\<open>token_values\<close>, \<open>redemption_options\<close>,
  \<open>user_id\<close>, \<open>name\<close>, \<open>redemption_history\<close> with entries \<open>timestamp\<close>, \<open>tokens\<close>,
  \<open>option\<close>, \<open>reward\<close>). The identifier given to a new user and the clock reading of a
  redemption are inputs.
\<close>

record Redemption =
  red_timestamp :: string
  red_tokens :: real
  red_option :: string
  red_reward :: real

record User =
  user_id :: string
  name :: string
  token_balance :: real
  redemption_history :: "Redemption list"

record TokenManager =
  users :: "string \<rightharpoonup> User"
  token_values :: "string \<rightharpoonup> real"
  redemption_options :: "string \<rightharpoonup> real"

definition register_user :: "TokenManager \<Rightarrow> string \<Rightarrow> string \<Rightarrow> (User \<times> TokenManager) option" where
  "register_user tm uname new_id =
     (if uname = [] then None
      else (let u = \<lparr>user_id = new_id, name = uname, token_balance = 0, redemption_history = []\<rparr>
            in Some (u, tm\<lparr>users := (users tm)(new_id \<mapsto> u)\<rparr>)))"

definition award_tokens ::
  "TokenManager \<Rightarrow> string \<Rightarrow> string \<Rightarrow> string \<Rightarrow> real \<Rightarrow> string \<Rightarrow> (bool \<times> real) \<times> TokenManager" where
  "award_tokens tm uid material_type subtype weight_kg stamp =
     (case users tm uid of
        None \<Rightarrow> ((False, 0), tm)
      | Some u \<Rightarrow>
          (case token_values tm material_type of
             None \<Rightarrow> ((False, 0), tm)
           | Some value_per_kg \<Rightarrow>
               (let tokens = round_py (weight_kg * value_per_kg) 2
                in ((True, tokens),
                    tm\<lparr>users := (users tm)(uid \<mapsto> u\<lparr>token_balance := token_balance u + tokens\<rparr>)\<rparr>))))"

definition redeem_tokens ::
  "TokenManager \<Rightarrow> string \<Rightarrow> real \<Rightarrow> string \<Rightarrow> string \<Rightarrow> bool \<times> TokenManager" where
  "redeem_tokens tm uid token_count option_name stamp =
     (case users tm uid of
        None \<Rightarrow> (False, tm)
      | Some u \<Rightarrow>
          (case redemption_options tm option_name of
             None \<Rightarrow> (False, tm)
           | Some rate \<Rightarrow>
               (if token_balance u \<ge> token_count then
                  (True,
                   tm\<lparr>users := (users tm)(uid \<mapsto>
                        u\<lparr>token_balance := token_balance u - token_count,
                          redemption_history := redemption_history u @
                            [\<lparr>red_timestamp = stamp, red_tokens = token_count,
                              red_option = option_name, red_reward = token_count * rate\<rparr>]\<rparr>)\<rparr>)
                else (False, tm))))"

text \<open>A sequence of calls on the ledger, with what each call returned.\<close>

datatype ledger_call =
  Award string string string real string
| Redeem string real string string

datatype ledger_result = Awarded bool real | Redeemed bool

fun ledger_step :: "TokenManager \<Rightarrow> ledger_call \<Rightarrow> ledger_result \<times> TokenManager" where
  "ledger_step tm (Award uid material_type subtype weight_kg stamp) =
     (case award_tokens tm uid material_type subtype weight_kg stamp of
        ((ok, tokens), tm') \<Rightarrow> (Awarded ok tokens, tm'))"
| "ledger_step tm (Redeem uid token_count option_name stamp) =
     (case redeem_tokens tm uid token_count option_name stamp of
        (ok, tm') \<Rightarrow> (Redeemed ok, tm'))"

fun ledger_run :: "TokenManager \<Rightarrow> ledger_call list \<Rightarrow> (ledger_call \<times> ledger_result) list \<times> TokenManager" where
  "ledger_run tm [] = ([], tm)"
| "ledger_run tm (c # cs) =
     (case ledger_step tm c of (r, tm') \<Rightarrow>
      case ledger_run tm' cs of (trace, tm'') \<Rightarrow> ((c, r) # trace, tm''))"

text \<open>
  What a trace says was awarded to a user, and what the user redeemed with success:
  both are read off the calls and their returned values only.
\<close>

fun awards_of :: "string \<Rightarrow> (ledger_call \<times> ledger_result) list \<Rightarrow> real" where
  "awards_of uid [] = 0"
| "awards_of uid ((Award uid' material_type subtype weight_kg stamp, Awarded ok tokens) # rest) =
     (if uid' = uid then tokens else 0) + awards_of uid rest"
| "awards_of uid (other # rest) = awards_of uid rest"

fun redemptions_of :: "string \<Rightarrow> (ledger_call \<times> ledger_result) list \<Rightarrow> real" where
  "redemptions_of uid [] = 0"
| "redemptions_of uid ((Redeem uid' token_count option_name stamp, Redeemed ok) # rest) =
     (if uid' = uid \<and> ok then token_count else 0) + redemptions_of uid rest"
| "redemptions_of uid (other # rest) = redemptions_of uid rest"

definition balance_of :: "TokenManager \<Rightarrow> string \<Rightarrow> real" where
  "balance_of tm uid = (case users tm uid of None \<Rightarrow> 0 | Some u \<Rightarrow> token_balance u)"

text \<open>A call awards a weight that is not negative (redemptions are not constrained).\<close>

fun call_weight_nonneg :: "ledger_call \<Rightarrow> bool" where
  "call_weight_nonneg (Award uid material_type subtype weight_kg stamp) = (0 \<le> weight_kg)"
| "call_weight_nonneg (Redeem uid token_count option_name stamp) = True"

section \<open>RecyclableSensor\<close>

text \<open>
  \<open>read\<close> returns dictionaries with different keys on its two paths, so its result is
  an association list from keys to Python values, in the order the literal lists them.
\<close>

datatype pyval = PyNone | PyBool bool | PyInt int | PyFloat real | PyStr string

record MaterialType =
  subtypes :: "string list"
  weight_range :: "real \<times> real"
  density :: real

definition MATERIAL_TYPES :: "(string \<times> MaterialType) list" where
  "MATERIAL_TYPES =
     [(''paper'', \<lparr>subtypes = [''newspaper'', ''cardboard'', ''magazine'', ''mixed paper''],
                   weight_range = (0.05, 2.0), density = 75.0\<rparr>),
      (''plastic'', \<lparr>subtypes = [''PET bottle'', ''HDPE container'', ''plastic bag'', ''plastic packaging''],
                     weight_range = (0.01, 0.5), density = 35.0\<rparr>),
      (''metal'', \<lparr>subtypes = [''aluminum can'', ''steel can'', ''metal lid'', ''foil''],
                   weight_range = (0.02, 0.5), density = 62.5\<rparr>),
      (''glass'', \<lparr>subtypes = [''clear bottle'', ''green bottle'', ''brown bottle'', ''glass jar''],
                   weight_range = (0.1, 1.0), density = 500.0\<rparr>),
      (''e-waste'', \<lparr>subtypes = [''battery'', ''small electronic'', ''cable'', ''charger''],
                     weight_range = (0.05, 2.0), density = 350.0\<rparr>)]"

record RecyclableSensor =
  rec_base :: SensorBase
  detection_probabilities :: "(string \<times> real) list"
  token_manager :: "TokenManager option"
  current_user_id :: "string option"

definition default_detection_probabilities :: "(string \<times> real) list" where
  "default_detection_probabilities =
     [(''paper'', 0.3), (''plastic'', 0.4), (''metal'', 0.15), (''glass'', 0.1), (''e-waste'', 0.05)]"

text \<open>
  \<open>__init__\<close>: \<open>detection_probabilities or {...}\<close> takes the default for \<open>None\<close> and
  for an empty dictionary, and installs any other dictionary as it is.
\<close>

definition RecyclableSensor_init ::
  "string option \<Rightarrow> (string \<times> real) list option \<Rightarrow> TokenManager option \<Rightarrow> string \<Rightarrow> string
     \<Rightarrow> RecyclableSensor" where
  "RecyclableSensor_init dev probs tm uuid1 uuid2 =
     \<lparr>rec_base = SensorBase_init ''recyclable'' dev uuid1 uuid2,
      detection_probabilities =
        (case probs of
           None \<Rightarrow> default_detection_probabilities
         | Some d \<Rightarrow> if d = [] then default_detection_probabilities else d),
      token_manager = tm,
      current_user_id = None\<rparr>"

definition set_detection_probabilities ::
  "RecyclableSensor \<Rightarrow> (string \<times> real) list \<Rightarrow> py_error + RecyclableSensor" where
  "set_detection_probabilities s probs =
     (let total_prob = sum_list (map snd probs)
      in if \<not> (0.99 \<le> total_prob \<and> total_prob \<le> 1.01) then Inl ValueError
         else Inr (s\<lparr>detection_probabilities := probs\<rparr>))"

definition set_token_manager :: "RecyclableSensor \<Rightarrow> TokenManager option \<Rightarrow> RecyclableSensor" where
  "set_token_manager s tm = s\<lparr>token_manager := tm\<rparr>"

definition set_current_user :: "RecyclableSensor \<Rightarrow> string option \<Rightarrow> RecyclableSensor" where
  "set_current_user s uid = s\<lparr>current_user_id := uid\<rparr>"

text \<open>
  The truth value of \<open>self.token_manager and self.current_user_id\<close>: a token manager
  object is true, \<open>None\<close> and the empty string are false.
\<close>

definition award_condition :: "RecyclableSensor \<Rightarrow> bool" where
  "award_condition s =
     (token_manager s \<noteq> None \<and>
      (case current_user_id s of None \<Rightarrow> False | Some uid \<Rightarrow> uid \<noteq> []))"

text \<open>
  The award step of \<open>read\<close>: \<open>tokens_awarded\<close> starts as \<open>0.0\<close> and is replaced by what
  \<open>award_tokens\<close> returns when the condition holds; the token manager that the sensor
  refers to is then the updated one.
\<close>

definition recyclable_award ::
  "RecyclableSensor \<Rightarrow> string \<Rightarrow> string \<Rightarrow> real \<Rightarrow> string \<Rightarrow> real \<times> RecyclableSensor" where
  "recyclable_award s material_type material_subtype weight stamp =
     (case token_manager s of
        None \<Rightarrow> (0, s)
      | Some tm \<Rightarrow>
          (case current_user_id s of
             None \<Rightarrow> (0, s)
           | Some uid \<Rightarrow>
               if uid = [] then (0, s)
               else (case award_tokens tm uid material_type material_subtype weight stamp of
                       ((success, tokens_awarded), tm') \<Rightarrow>
                         (tokens_awarded, s\<lparr>token_manager := Some tm'\<rparr>))))"

definition user_id_value :: "string option \<Rightarrow> pyval" where
  "user_id_value uid = (case uid of None \<Rightarrow> PyNone | Some u \<Rightarrow> PyStr u)"

definition no_detection_result :: "(string \<times> pyval) list" where
  "no_detection_result =
     [(''materialDetected'', PyBool False),
      (''materialType'', PyNone),
      (''materialSubtype'', PyNone),
      (''weight'', PyFloat 0),
      (''weightUnit'', PyStr ''kg'')]"

definition detection_result ::
  "string \<Rightarrow> string \<Rightarrow> real \<Rightarrow> real \<Rightarrow> real \<Rightarrow> string option \<Rightarrow> (string \<times> pyval) list" where
  "detection_result material_type material_subtype weight dens tokens_awarded uid =
     [(''materialDetected'', PyBool True),
      (''materialType'', PyStr material_type),
      (''materialSubtype'', PyStr material_subtype),
      (''weight'', PyFloat weight),
      (''weightUnit'', PyStr ''kg''),
      (''density'', PyFloat dens),
      (''densityUnit'', PyStr ''pounds/cubic_yard''),
      (''tokensAwarded'', PyFloat tokens_awarded),
      (''userId'', user_id_value uid)]"

text \<open>
  \<open>read\<close>; the argument \<open>stamp\<close> is what \<open>self.get_timestamp()\<close> gives at the call, and
  the literal \<open>0.9\<close> that the first draw is compared with is the double nearest to it.
\<close>

definition RecyclableSensor_read ::
  "RecyclableSensor \<Rightarrow> string \<Rightarrow> rng
     \<Rightarrow> py_error + ((string \<times> pyval) list \<times> RecyclableSensor \<times> rng)" where
  "RecyclableSensor_read s stamp g =
     (case rng_random g of (u, g1) \<Rightarrow>
      if u > float_round 0.9 then Inr (no_detection_result, s, g1)
      else
        (case choices (map fst (detection_probabilities s)) (map snd (detection_probabilities s)) g1 of
           Inl e \<Rightarrow> Inl e
         | Inr (material_type, g2) \<Rightarrow>
             (case dict_index MATERIAL_TYPES material_type of
                Inl e \<Rightarrow> Inl e
              | Inr props \<Rightarrow>
                  (case choice (subtypes props) g2 of
                     Inl e \<Rightarrow> Inl e
                   | Inr (material_subtype, g3) \<Rightarrow>
                       (case rng_uniform (fst (weight_range props)) (snd (weight_range props)) g3 of
                          (w, g4) \<Rightarrow>
                        (let weight = round_py w 3
                         in case recyclable_award s material_type material_subtype weight stamp of
                              (tokens_awarded, s') \<Rightarrow>
                                Inr (detection_result material_type material_subtype weight
                                       (density props) tokens_awarded (current_user_id s'),
                                     s', g4)))))))"

definition detect_recyclable_for_user ::
  "RecyclableSensor \<Rightarrow> string option \<Rightarrow> string \<Rightarrow> rng
     \<Rightarrow> py_error + ((string \<times> pyval) list \<times> RecyclableSensor \<times> rng)" where
  "detect_recyclable_for_user s uid stamp g = RecyclableSensor_read (set_current_user s uid) stamp g"

section \<open>Assembly of the recyclable part of a composite reading\<close>

text \<open>\<open>d.get(k, default)\<close>.\<close>

definition dict_get :: "('k \<times> 'v) list \<Rightarrow> 'k \<Rightarrow> 'v \<Rightarrow> 'v" where
  "dict_get d k dflt = (case map_of d k of None \<Rightarrow> dflt | Some v \<Rightarrow> v)"

text \<open>
  The entry \<open>"recyclable"\<close> of \<open>combined_data\<close> in \<open>run_simulation\<close> (the same in
  \<open>main.py\<close> and \<open>run_simulation.py\<close>).
\<close>

definition combined_recyclable :: "(string \<times> pyval) list \<Rightarrow> py_error + (string \<times> pyval) list" where
  "combined_recyclable recyclable_data =
     (case dict_index recyclable_data ''materialDetected'' of
        Inl e \<Rightarrow> Inl e
      | Inr detected \<Rightarrow>
          Inr [(''materialDetected'', detected),
               (''materialType'', dict_get recyclable_data ''materialType'' (PyStr [])),
               (''materialSubtype'', dict_get recyclable_data ''materialSubtype'' (PyStr [])),
               (''weight'', dict_get recyclable_data ''weight'' (PyFloat 0)),
               (''weightUnit'', dict_get recyclable_data ''weightUnit'' (PyStr ''kg'')),
               (''tokensAwarded'', dict_get recyclable_data ''tokensAwarded'' (PyInt 0))])"

section \<open>Sample inputs\<close>

text \<open>
  A generator whose every float draw is \<open>c\<close> and whose every integer draw is \<open>k\<close>, and
  the sensors that the example code at the end of each source file constructs.
\<close>

definition rng_const :: "real \<Rightarrow> nat \<Rightarrow> rng" where
  "rng_const c k = \<lparr>floats = (\<lambda>i. c), fpos = 0, ints = (\<lambda>i. k), ipos = 0\<rparr>"

definition example_fill_sensor :: FillLevelSensor where
  "example_fill_sensor = FillLevelSensor_init None 20 5 100 0 95 ''s'' ''d''"

text \<open>
  The loop \<open>for i in range(n): reading = temp_sensor.read()\<close> of the example code,
  returning the readings in order.
\<close>

fun TemperatureSensor_read_n ::
  "nat \<Rightarrow> TemperatureSensor \<Rightarrow> rng \<Rightarrow> TemperatureReading list \<times> TemperatureSensor \<times> rng" where
  "TemperatureSensor_read_n 0 s g = ([], s, g)"
| "TemperatureSensor_read_n (Suc n) s g =
     (case TemperatureSensor_read s g of (r, s1, g1) \<Rightarrow>
      case TemperatureSensor_read_n n s1 g1 of (rs, s2, g2) \<Rightarrow> (r # rs, s2, g2))"

definition example_temp_sensor :: TemperatureSensor where
  "example_temp_sensor = TemperatureSensor_init None 22 2 50 0 0.05 3 ''s'' ''d''"

text \<open>A generator whose float draws are all \<open>0.5\<close>, except draw number \<open>k\<close>, which is \<open>v\<close>.\<close>

definition rng_value_at :: "nat \<Rightarrow> real \<Rightarrow> rng" where
  "rng_value_at k v = \<lparr>floats = (\<lambda>i. if i = k then v else 0.5), fpos = 0, ints = (\<lambda>i. 0), ipos = 0\<rparr>"

text \<open>A fill level sensor whose variation exceeds its fill rate, starting empty.\<close>

definition slow_fill_sensor :: FillLevelSensor where
  "slow_fill_sensor = FillLevelSensor_init None 0 0.05 100 0.1 95 ''s'' ''d''"

definition example_humidity_sensor :: HumiditySensor where
  "example_humidity_sensor = HumiditySensor_init None 50 5 75 80 0.6 ''s'' ''d''"

definition example_air_quality_sensor :: AirQualitySensor where
  "example_air_quality_sensor = AirQualitySensor_init None 50 10 0.7 0.5 ''s'' ''d''"

definition example_odor_sensor :: OdorSensor where
  "example_odor_sensor = OdorSensor_init None 0.6 0.7 0.1 ''s'' ''d''"

text \<open>Detection weights that do not sum to 1.\<close>

definition heavy_detection_probabilities :: "(string \<times> real) list" where
  "heavy_detection_probabilities = [(''paper'', 2)]"

text \<open>
  A ledger with one registered user and a recyclable sensor attached to it, with that user
  as the current one.
\<close>

definition example_token_manager :: TokenManager where
  "example_token_manager =
     \<lparr>users = Map.empty,
      token_values = [''paper'' \<mapsto> 1, ''plastic'' \<mapsto> 2, ''metal'' \<mapsto> 3, ''glass'' \<mapsto> 1.5, ''e-waste'' \<mapsto> 5],
      redemption_options = [''cash'' \<mapsto> 0.1, ''voucher'' \<mapsto> 0.2]\<rparr>"

definition example_ledger :: TokenManager where
  "example_ledger =
     (case register_user example_token_manager ''John Smith'' ''u1'' of
        None \<Rightarrow> example_token_manager
      | Some (u, tm) \<Rightarrow> tm)"

definition example_recyclable_sensor :: RecyclableSensor where
  "example_recyclable_sensor =
     set_current_user (RecyclableSensor_init None None (Some example_ledger) ''s'' ''d'') (Some ''u1'')"

section \<open>Properties\<close>

lemma rng_uniform_fst: "fst (rng_uniform a b g) = a + (b - a) * floats g (fpos g)"
  by (simp add: rng_uniform_def rng_random_def)

lemma rng_uniform_snd: "snd (rng_uniform a b g) = g\<lparr>fpos := Suc (fpos g)\<rparr>"
  by (simp add: rng_uniform_def rng_random_def)

lemma rng_uniform_range:
  assumes "rng_ok g" and "a \<le> b"
  shows "a \<le> fst (rng_uniform a b g) \<and> fst (rng_uniform a b g) \<le> b"
proof -
  let ?u = "floats g (fpos g)"
  have u: "0 \<le> ?u" "?u < 1" using assms(1) by (simp_all add: rng_ok_def)
  have d: "0 \<le> b - a" using assms(2) by simp
  have lo: "0 \<le> (b - a) * ?u" using d u(1) by simp
  have "(b - a) * ?u \<le> (b - a) * 1"
    using d u(2) by (intro mult_left_mono) simp_all
  then have hi: "(b - a) * ?u \<le> b - a" by simp
  show ?thesis using lo hi by (simp add: rng_uniform_fst)
qed

lemma round_half_even_cases:
  "round_half_even y = \<lfloor>y\<rfloor> \<or> (round_half_even y = \<lfloor>y\<rfloor> + 1 \<and> of_int \<lfloor>y\<rfloor> < y)"
  unfolding round_half_even_def Let_def by auto

lemma round_half_even_ge: "of_int m \<le> y \<Longrightarrow> m \<le> round_half_even y"
proof -
  assume "of_int m \<le> y"
  then have "m \<le> \<lfloor>y\<rfloor>" by (simp add: le_floor_iff)
  then show ?thesis using round_half_even_cases[of y] by auto
qed

lemma round_half_even_le: "y \<le> of_int m \<Longrightarrow> round_half_even y \<le> m"
proof -
  assume a: "y \<le> of_int m"
  from round_half_even_cases[of y] show ?thesis
  proof
    assume "round_half_even y = \<lfloor>y\<rfloor>"
    moreover have "\<lfloor>y\<rfloor> \<le> m" using a floor_mono[of y "of_int m"] by simp
    ultimately show ?thesis by simp
  next
    assume b: "round_half_even y = \<lfloor>y\<rfloor> + 1 \<and> of_int \<lfloor>y\<rfloor> < y"
    then have "of_int \<lfloor>y\<rfloor> < (of_int m :: real)" using a by linarith
    then have "\<lfloor>y\<rfloor> < m" by simp
    then show ?thesis using b by simp
  qed
qed

lemma round_py_ge: "of_int m \<le> x * 10 ^ n \<Longrightarrow> of_int m / 10 ^ n \<le> round_py x n"
  unfolding round_py_def
  by (simp add: divide_le_cancel round_half_even_ge)

lemma round_py_le: "x * 10 ^ n \<le> of_int m \<Longrightarrow> round_py x n \<le> of_int m / 10 ^ n"
  unfolding round_py_def
  by (simp add: divide_le_cancel round_half_even_le)

lemma round_py_ge_int: "of_int k \<le> x \<Longrightarrow> of_int k \<le> round_py x n"
proof -
  assume a: "of_int k \<le> x"
  have "of_int (k * 10 ^ n) \<le> x * 10 ^ n" using a by simp
  from round_py_ge[OF this] show ?thesis by simp
qed

lemma round_py_le_int: "x \<le> of_int k \<Longrightarrow> round_py x n \<le> of_int k"
proof -
  assume a: "x \<le> of_int k"
  have "x * 10 ^ n \<le> of_int (k * 10 ^ n)" using a by simp
  from round_py_le[OF this] show ?thesis by simp
qed

lemma round_py_nonneg: "0 \<le> x \<Longrightarrow> 0 \<le> round_py x n"
  using round_py_ge_int[of 0 x n] by simp

lemma triple_collapse: "p = (fst p, fst (snd p), snd (snd p))"
  by simp

text \<open>
  Claim C8. Every call of \<open>FillLevelSensor.read\<close> adds
  \<open>fill_rate + uniform(-variation, variation)\<close> to the stored level and clamps the sum at
  \<open>capacity\<close>; the reported level is the stored one rounded to two decimals, \<open>isFull\<close>
  holds exactly when the reported level is at least \<open>overflow_threshold\<close>, \<open>isOverflowing\<close>
  exactly when it is at least \<open>capacity\<close>, and \<open>status\<close> is \<open>overflow\<close> before \<open>full\<close>
  before \<open>normal\<close>.
\<close>

theorem fill_level_read_contract:
  assumes "FillLevelSensor_read s g = (r, s', g')"
  shows "\<exists>variation.
           variation = - fill_rate_variation s
                       + (fill_rate_variation s - (- fill_rate_variation s)) * floats g (fpos g)
         \<and> (rng_ok g \<and> 0 \<le> fill_rate_variation s \<longrightarrow>
               - fill_rate_variation s \<le> variation \<and> variation \<le> fill_rate_variation s)
         \<and> fill_level s' = min (fill_level s + (fill_rate s + variation)) (capacity s)
         \<and> fill_level s' \<le> capacity s
         \<and> fillLevel r = round_py (fill_level s') 2
         \<and> isFull r = (fillLevel r \<ge> overflow_threshold s)
         \<and> isOverflowing r = (fillLevel r \<ge> capacity s)
         \<and> fl_status r = (if isOverflowing r then ''overflow''
                           else if isFull r then ''full'' else ''normal'')"
proof -
  let ?v = "fst (rng_uniform (- fill_rate_variation s) (fill_rate_variation s) g)"
  have v: "?v = - fill_rate_variation s
                + (fill_rate_variation s - (- fill_rate_variation s)) * floats g (fpos g)"
    by (simp add: rng_uniform_fst)
  have rng: "rng_ok g \<and> 0 \<le> fill_rate_variation s \<longrightarrow>
               - fill_rate_variation s \<le> ?v \<and> ?v \<le> fill_rate_variation s"
    using rng_uniform_range[of g "- fill_rate_variation s" "fill_rate_variation s"] by simp
  have s': "s' = s\<lparr>fill_level := min (fill_level s + (fill_rate s + ?v)) (capacity s)\<rparr>"
    using assms by (auto simp: FillLevelSensor_read_def Let_def split_def)
  have r: "fillLevel r = round_py (fill_level s') 2"
    "isFull r = (fillLevel r \<ge> overflow_threshold s)"
    "isOverflowing r = (fillLevel r \<ge> capacity s)"
    "fl_status r = (if isOverflowing r then ''overflow''
                           else if isFull r then ''full'' else ''normal'')"
    using assms by (auto simp: FillLevelSensor_read_def Let_def split_def)
  show ?thesis
    using v rng s' r by (intro exI[of _ ?v]) simp
qed

theorem fill_level_read_contract_witness:
  "rng_ok (rng_const 0 0) \<and> 0 \<le> fill_rate_variation example_fill_sensor
   \<and> fill_level (fst (snd (FillLevelSensor_read example_fill_sensor (rng_const 0 0)))) = 25
   \<and> fillLevel (fst (FillLevelSensor_read example_fill_sensor (rng_const 0 0))) = 25
   \<and> \<not> isFull (fst (FillLevelSensor_read example_fill_sensor (rng_const 0 0)))
   \<and> fl_status (fst (FillLevelSensor_read example_fill_sensor (rng_const 0 0))) = ''normal''"
  using fill_level_read_contract[OF triple_collapse, of example_fill_sensor "rng_const 0 0"]
  by (simp add: rng_ok_def rng_const_def example_fill_sensor_def FillLevelSensor_init_def
        FillLevelSensor_read_def rng_uniform_def rng_random_def
        round_py_def round_half_even_def Let_def)

lemma bisect_right_bounds:
  "lo \<le> hi \<Longrightarrow> lo \<le> bisect_right a x lo hi \<and> bisect_right a x lo hi \<le> hi"
proof (induction a x lo hi rule: bisect_right.induct)
  case (1 a x lo hi)
  let ?mid = "(lo + hi) div 2"
  show ?case
  proof (cases "lo < hi")
    case False
    then have "bisect_right a x lo hi = lo" by (subst bisect_right.simps) simp
    then show ?thesis using "1.prems" by linarith
  next
    case True
    have m: "lo \<le> ?mid" "?mid < hi" using True by auto
    show ?thesis
    proof (cases "x < a ! ?mid")
      case lt: True
      have e: "bisect_right a x lo hi = bisect_right a x lo ?mid"
        using True lt by (subst bisect_right.simps) simp
      from "1.IH"(1)[OF True lt m(1)] show ?thesis
        using m unfolding e by linarith
    next
      case ge: False
      have e: "bisect_right a x lo hi = bisect_right a x (?mid + 1) hi"
        using True ge by (subst bisect_right.simps) simp
      have "?mid + 1 \<le> hi" using m by simp
      from "1.IH"(2)[OF True ge this] show ?thesis
        using m unfolding e by linarith
    qed
  qed
qed

lemma length_accumulate_from: "length (accumulate_from acc ws) = length ws"
  by (induction ws arbitrary: acc) simp_all

lemma choices_ok:
  assumes "length population = length weights" and "weights \<noteq> []"
      and "0 < last (accumulate weights)"
  shows "choices population weights g =
           Inr (population ! bisect_right (accumulate weights)
                                (floats g (fpos g) * last (accumulate weights)) 0
                                (length population - 1),
                g\<lparr>fpos := Suc (fpos g)\<rparr>)"
    and "bisect_right (accumulate weights) (floats g (fpos g) * last (accumulate weights)) 0
           (length population - 1) < length population"
proof -
  let ?i = "bisect_right (accumulate weights) (floats g (fpos g) * last (accumulate weights)) 0
                 (length population - 1)"
  have ne: "accumulate weights \<noteq> []"
    using assms(2) length_accumulate_from[of 0 weights] by (auto simp: accumulate_def)
  have len: "length (accumulate weights) = length population"
    using assms(1) by (simp add: accumulate_def length_accumulate_from)
  have pos: "0 < length population" using assms(1,2) by simp
  have "?i \<le> length population - 1" using bisect_right_bounds[of 0 "length population - 1"] by simp
  then show "?i < length population" using pos by linarith
  show "choices population weights g = Inr (population ! ?i, g\<lparr>fpos := Suc (fpos g)\<rparr>)"
    using ne len assms(3) by (simp add: choices_def Let_def rng_random_def)
qed

lemma odor_population_eq: "odor_population fl = [''organic'', ''chemical'', ''mold'', ''none'']"
  by (simp add: odor_population_def ODOR_TYPES_def split: option.splits)

lemma odor_weights_ok:
  "length (odor_weights s fl) = 4 \<and> odor_weights s fl \<noteq> [] \<and> 0 < last (accumulate (odor_weights s fl))"
  by (simp add: odor_weights_def accumulate_def Let_def split: option.splits)

lemma odor_dict_index:
  "i < 4 \<Longrightarrow> \<exists>props. dict_index ODOR_TYPES ([''organic'', ''chemical'', ''mold'', ''none''] ! i) = Inr props
      \<and> map_of ODOR_TYPES ([''organic'', ''chemical'', ''mold'', ''none''] ! i) = Some props"
proof -
  assume "i < 4"
  then have "i = 0 \<or> i = 1 \<or> i = 2 \<or> i = 3" by linarith
  then show ?thesis
    by (auto simp: dict_index_def ODOR_TYPES_def)
qed

lemma odor_read_ok:
  "\<exists>r s' g'. OdorSensor_read s fl g = Inr (r, s', g')
     \<and> 0 \<le> current_intensity s' \<and> current_intensity s' \<le> 1
     \<and> 0 \<le> intensity r \<and> intensity r \<le> 1
     \<and> intensity r = round_py (current_intensity s') 3
     \<and> odorType r \<in> set [''organic'', ''chemical'', ''mold'', ''none'']"
proof -
  let ?pop = "[''organic'', ''chemical'', ''mold'', ''none'']"
  from odor_weights_ok[of s fl]
  have w: "length ?pop = length (odor_weights s fl)" "odor_weights s fl \<noteq> []"
    "0 < last (accumulate (odor_weights s fl))" by simp_all
  define i where "i = bisect_right (accumulate (odor_weights s fl))
      (floats g (fpos g) * last (accumulate (odor_weights s fl))) 0 (length ?pop - 1)"
  have i: "i < 4" using choices_ok(2)[OF w, of g] by (simp add: i_def)
  have ch: "choices ?pop (odor_weights s fl) g = Inr (?pop ! i, g\<lparr>fpos := Suc (fpos g)\<rparr>)"
    unfolding i_def by (rule choices_ok(1)[OF w])
  from odor_dict_index[OF i] obtain props where
    props: "dict_index ODOR_TYPES (?pop ! i) = Inr props" by blast
  have mem: "?pop ! i \<in> set ?pop" using i by (intro nth_mem) simp
  have b: "0 \<le> max 0 (min 1 (x::real))" "max 0 (min 1 (x::real)) \<le> 1" for x by simp_all
  show ?thesis
    using mem
    by (simp add: OdorSensor_read_def odor_population_eq ch props split_def Let_def
          round_py_nonneg round_py_le_int[of _ 1, simplified] del: set_simps)
qed

lemma humidity_mold_risk_ok:
  assumes "h \<le> 100"
  shows "\<exists>m. humidity_mold_risk s h = Inr m \<and> 0 \<le> m \<and> m \<le> 100"
proof (cases "h > mold_risk_threshold s")
  case False
  then show ?thesis by (simp add: humidity_mold_risk_def)
next
  case True
  then have d: "0 < 100 - mold_risk_threshold s" using assms by linarith
  have n: "0 \<le> h - mold_risk_threshold s" using True by simp
  have "0 \<le> (h - mold_risk_threshold s) / (100 - mold_risk_threshold s)"
    using n d by simp
  then have "0 \<le> (h - mold_risk_threshold s) / (100 - mold_risk_threshold s) * 100"
    by (rule mult_nonneg_nonneg) simp
  then have "0 \<le> min 100 ((h - mold_risk_threshold s) / (100 - mold_risk_threshold s) * 100)"
    by (rule min.boundedI[rotated]) simp
  moreover have "humidity_mold_risk s h =
      Inr (min 100 ((h - mold_risk_threshold s) / (100 - mold_risk_threshold s) * 100))"
    using True d unfolding humidity_mold_risk_def by (simp del: times_divide_eq_left)
  ultimately show ?thesis by (simp del: times_divide_eq_left)
qed

lemma humidity_read_ok:
  "\<exists>r s' g'. HumiditySensor_read s fl g = Inr (r, s', g')
     \<and> current_humidity s' =
         max 0 (min 100
           ((case fl of Some f \<Rightarrow> base_humidity s + min (f / 100) 1 * hum_fill_level_correlation s * 30
                      | None \<Rightarrow> base_humidity s)
            + fst (rng_uniform (- humidity_variation s) (humidity_variation s) g)))
     \<and> 0 \<le> current_humidity s' \<and> current_humidity s' \<le> 100
     \<and> humidity r = round_py (current_humidity s') 2
     \<and> 0 \<le> humidity r \<and> humidity r \<le> 100"
proof -
  let ?b = "(case fl of Some f \<Rightarrow> base_humidity s + min (f / 100) 1 * hum_fill_level_correlation s * 30
                      | None \<Rightarrow> base_humidity s)"
  let ?h = "max 0 (min 100 (?b + fst (rng_uniform (- humidity_variation s) (humidity_variation s) g)))"
  have hb: "0 \<le> ?h" "?h \<le> 100" by simp_all
  from humidity_mold_risk_ok[OF hb(2), of "s\<lparr>current_humidity := ?h\<rparr>"]
  obtain m where m: "humidity_mold_risk (s\<lparr>current_humidity := ?h\<rparr>) ?h = Inr m" by blast
  have rb: "0 \<le> round_py ?h 2" "round_py ?h 2 \<le> 100"
    using round_py_nonneg[OF hb(1)] round_py_le_int[of ?h 100 2] hb(2) by simp_all
  have e: "HumiditySensor_read s fl g =
     Inr (\<lparr>humidity = round_py ?h 2, hum_unit = ''percentage'',
           isHigh = (?h > high_humidity_threshold s), isMoldRisk = (?h > mold_risk_threshold s),
           moldRiskPercentage = round_py m 2,
           hum_status = (if ?h > mold_risk_threshold s then ''mold_risk''
                              else if ?h > high_humidity_threshold s then ''high'' else ''normal''),
           humidityData = \<lparr>hd_value = round_py ?h 2, hd_unit = ''percentage'',
              hd_status = (if ?h > mold_risk_threshold s then ''mold_risk''
                              else if ?h > high_humidity_threshold s then ''high'' else ''normal''),
              hd_moldRisk = round_py m 2\<rparr>\<rparr>,
          s\<lparr>current_humidity := ?h\<rparr>, snd (rng_uniform (- humidity_variation s) (humidity_variation s) g))"
    using m
    by (cases fl) (simp_all add: HumiditySensor_read_def Let_def split_def)
  show ?thesis unfolding e using hb rb by simp
qed

lemma category_loop_mem: "category_loop cats a d \<in> insert d (set (map fst cats))"
  by (induction cats a d rule: category_loop.induct) auto

lemma aqi_category_index:
  "\<exists>props. dict_index AQI_CATEGORIES (category_loop AQI_CATEGORIES a ''good'') = Inr props"
proof -
  have "category_loop AQI_CATEGORIES a ''good'' \<in> set (map fst AQI_CATEGORIES)"
    using category_loop_mem[of AQI_CATEGORIES a "''good''"] by (simp add: AQI_CATEGORIES_def)
  then obtain props where "map_of AQI_CATEGORIES (category_loop AQI_CATEGORIES a ''good'') = Some props"
    by (metis (no_types) map_of_eq_None_iff not_Some_eq set_map)
  then show ?thesis by (simp add: dict_index_def)
qed

lemma air_quality_read_ok:
  "\<exists>r s' g'. AirQualitySensor_read s fl t g = Inr (r, s', g')
     \<and> current_aqi s' =
         max 0 (min 500
           ((case t of Some tv \<Rightarrow>
               (case fl of Some f \<Rightarrow> base_aqi s + min (f / 100) 1 * aq_fill_level_correlation s * 100
                         | None \<Rightarrow> base_aqi s)
               + max 0 ((tv - 25) / 25) * temperature_correlation s * 50
             | None \<Rightarrow>
               (case fl of Some f \<Rightarrow> base_aqi s + min (f / 100) 1 * aq_fill_level_correlation s * 100
                         | None \<Rightarrow> base_aqi s))
            + fst (rng_uniform (- aqi_variation s) (aqi_variation s) g)))
     \<and> 0 \<le> current_aqi s' \<and> current_aqi s' \<le> 500
     \<and> aqi r = round_py (current_aqi s') 2
     \<and> 0 \<le> aqi r \<and> aqi r \<le> 500
     \<and> category r = category_loop AQI_CATEGORIES (current_aqi s') ''good''"
proof -
  let ?b = "(case t of Some tv \<Rightarrow>
               (case fl of Some f \<Rightarrow> base_aqi s + min (f / 100) 1 * aq_fill_level_correlation s * 100
                         | None \<Rightarrow> base_aqi s)
               + max 0 ((tv - 25) / 25) * temperature_correlation s * 50
             | None \<Rightarrow>
               (case fl of Some f \<Rightarrow> base_aqi s + min (f / 100) 1 * aq_fill_level_correlation s * 100
                         | None \<Rightarrow> base_aqi s))"
  let ?a = "max 0 (min 500 (?b + fst (rng_uniform (- aqi_variation s) (aqi_variation s) g)))"
  have ab: "0 \<le> ?a" "?a \<le> 500" by simp_all
  have rb: "0 \<le> round_py ?a 2" "round_py ?a 2 \<le> 500"
    using round_py_nonneg[OF ab(1)] round_py_le_int[of ?a 500 2] ab(2) by simp_all
  from aqi_category_index[of ?a] obtain props where
    props: "dict_index AQI_CATEGORIES (category_loop AQI_CATEGORIES ?a ''good'') = Inr props" by blast
  have "\<exists>r g'. AirQualitySensor_read s fl t g = Inr (r, s\<lparr>current_aqi := ?a\<rparr>, g')
           \<and> aqi r = round_py ?a 2 \<and> category r = category_loop AQI_CATEGORIES ?a ''good''"
    using props
    by (cases fl; cases t) (simp_all add: AirQualitySensor_read_def Let_def split_def)
  then obtain r g' where
    e: "AirQualitySensor_read s fl t g = Inr (r, s\<lparr>current_aqi := ?a\<rparr>, g')"
    and r: "aqi r = round_py ?a 2" "category r = category_loop AQI_CATEGORIES ?a ''good''"
    by blast
  show ?thesis
    using ab rb r by (intro exI[of _ r] exI[of _ "s\<lparr>current_aqi := ?a\<rparr>"] exI[of _ g']) (simp add: e)
qed

text \<open>
  Claim C3. \<open>FillLevelSensor.read\<close> clamps the new level at \<open>capacity\<close> only, with no lower
  clamp at 0, while \<open>set_fill_level\<close> clamps at both ends (and the other sensors clamp
  both ends inside \<open>read\<close>). A sensor that starts empty with fill rate 0.05 and variation
  0.1 stores and reports \<open>-0.05\<close> after one read whose draw is 0, outside \<open>[0, capacity]\<close>;
  \<open>set_fill_level\<close> gives 0 for the same value.
\<close>

theorem fill_level_read_below_zero:
  "rng_ok (rng_const 0 0)
   \<and> fill_level slow_fill_sensor = 0 \<and> capacity slow_fill_sensor = 100
   \<and> fill_level (fst (snd (FillLevelSensor_read slow_fill_sensor (rng_const 0 0)))) = - 0.05
   \<and> fillLevel (fst (FillLevelSensor_read slow_fill_sensor (rng_const 0 0))) = - 0.05
   \<and> fillLevel (fst (FillLevelSensor_read slow_fill_sensor (rng_const 0 0))) < 0
   \<and> fill_level (set_fill_level slow_fill_sensor (- 0.05)) = 0"
  by (simp add: slow_fill_sensor_def FillLevelSensor_init_def rng_const_def rng_ok_def
        FillLevelSensor_read_def rng_uniform_def rng_random_def Let_def
        round_py_def round_half_even_def set_fill_level_def)

text \<open>
  Claim C4. The AQI that \<open>read\<close> produces is a real number, while the category ranges
  have integer ends, so a value strictly between two ranges matches none of them and
  \<open>read\<close> keeps the initial \<open>category = "good"\<close>. With the default sensor, fill level 72
  and draw 0.505 the AQI is 100.5 (between \<open>moderate\<close> and \<open>unhealthy_sensitive\<close>) and the
  reading says \<open>good\<close>; \<open>get_category_for_aqi\<close> says \<open>hazardous\<close> for the same value.
\<close>

theorem aqi_gap_value_categorised_good:
  "rng_ok (rng_const 0.505 0)
   \<and> (\<exists>r s' g'. AirQualitySensor_read example_air_quality_sensor (Some 72) None (rng_const 0.505 0)
                   = Inr (r, s', g')
        \<and> current_aqi s' = 100.5 \<and> aqi r = 100.5 \<and> category r = ''good''
        \<and> aq_status r = ''good'' \<and> aq_color r = ''green'')
   \<and> get_category_for_aqi 100.5 = ''hazardous''"
  by (simp add: example_air_quality_sensor_def AirQualitySensor_init_def rng_const_def rng_ok_def
        AirQualitySensor_read_def rng_uniform_def rng_random_def Let_def
        AQI_CATEGORIES_def dict_index_def get_category_for_aqi_def
        round_py_def round_half_even_def)

text \<open>
  Claim C6. The check that detection weights sum to 1 within 0.01 is made by
  \<open>set_detection_probabilities\<close> only: \<open>__init__\<close> installs the weights it is given without
  it. Weights of sum 2 are installed at construction, and the setter rejects the same
  weights with \<open>ValueError\<close>.
\<close>

theorem init_installs_unvalidated_probabilities:
  "sum_list (map snd heavy_detection_probabilities) = 2
   \<and> detection_probabilities
        (RecyclableSensor_init None (Some heavy_detection_probabilities) None ''s'' ''d'')
       = heavy_detection_probabilities
   \<and> set_detection_probabilities
        (RecyclableSensor_init None None None ''s'' ''d'') heavy_detection_probabilities
       = Inl ValueError"
  by (simp add: heavy_detection_probabilities_def RecyclableSensor_init_def
        set_detection_probabilities_def)

lemma bisect_right_same: "bisect_right a x n n = n"
  by (subst bisect_right.simps) simp

lemma bisect_right_lt:
  "lo < hi \<Longrightarrow> mid = (lo + hi) div 2 \<Longrightarrow> x < a ! mid \<Longrightarrow>
     bisect_right a x lo hi = bisect_right a x lo mid"
  by (subst bisect_right.simps) simp

lemma bisect_right_ge:
  "lo < hi \<Longrightarrow> mid = (lo + hi) div 2 \<Longrightarrow> \<not> x < a ! mid \<Longrightarrow> nxt = mid + 1 \<Longrightarrow>
     bisect_right a x lo hi = bisect_right a x nxt hi"
  by (subst bisect_right.simps) simp

lemma bisect_right_fixed_weights:
  "bisect_right [3 / 10, 1 / 2, 7 / 10, 1] x 0 3 =
     (if x < 3 / 10 then 0 else if x < 1 / 2 then 1 else if x < 7 / 10 then 2 else 3)"
proof -
  let ?a = "[3 / 10, 1 / 2, 7 / 10, 1 :: real]"
  consider (a) "x < 3 / 10" | (b) "3 / 10 \<le> x" "x < 1 / 2" | (c) "1 / 2 \<le> x" "x < 7 / 10"
    | (d) "7 / 10 \<le> x" by linarith
  then show ?thesis
  proof cases
    case a
    have "bisect_right ?a x 0 3 = bisect_right ?a x 0 1"
      by (rule bisect_right_lt) (use a in simp_all)
    also have "\<dots> = bisect_right ?a x 0 0"
      by (rule bisect_right_lt) (use a in simp_all)
    finally show ?thesis using a by (simp add: bisect_right_same)
  next
    case b
    have "bisect_right ?a x 0 3 = bisect_right ?a x 0 1"
      by (rule bisect_right_lt) (use b in simp_all)
    also have "\<dots> = bisect_right ?a x 1 1"
      by (rule bisect_right_ge[where mid = 0]) (use b in simp_all)
    finally show ?thesis using b by (simp add: bisect_right_same)
  next
    case c
    have "bisect_right ?a x 0 3 = bisect_right ?a x 2 3"
      by (rule bisect_right_ge[where mid = 1]) (use c in simp_all)
    also have "\<dots> = bisect_right ?a x 2 2"
      by (rule bisect_right_lt) (use c in simp_all)
    finally show ?thesis using c by (simp add: bisect_right_same)
  next
    case d
    have "bisect_right ?a x 0 3 = bisect_right ?a x 2 3"
      by (rule bisect_right_ge[where mid = 1]) (use d in simp_all)
    also have "\<dots> = bisect_right ?a x 3 3"
      by (rule bisect_right_ge[where mid = 2]) (use d in simp_all)
    finally show ?thesis using d by (simp add: bisect_right_same)
  qed
qed

lemma odor_read_none_type:
  "\<exists>r s' g'. OdorSensor_read s None g = Inr (r, s', g')
     \<and> odorType r = (if floats g (fpos g) < 0.3 then ''organic''
                      else if floats g (fpos g) < 0.5 then ''chemical''
                      else if floats g (fpos g) < 0.7 then ''mold'' else ''none'')
     \<and> current_odor_type s' = odorType r
     \<and> 0 \<le> current_intensity s' \<and> current_intensity s' \<le> 1
     \<and> intensity r = round_py (current_intensity s') 3
     \<and> 0 \<le> intensity r \<and> intensity r \<le> 1"
proof -
  let ?pop = "[''organic'', ''chemical'', ''mold'', ''none'']"
  let ?u = "floats g (fpos g)"
  let ?i = "(if ?u < 3 / 10 then 0 else if ?u < 1 / 2 then 1 else if ?u < 7 / 10 then 2 else (3::nat))"
  have w: "odor_weights s None = [3 / 10, 1 / 5, 1 / 5, 3 / 10]" by (simp add: odor_weights_def)
  have acc: "accumulate [3 / 10, 1 / 5, 1 / 5, 3 / 10] = [3 / 10, 1 / 2, 7 / 10, 1]"
    by (simp add: accumulate_def)
  have l: "length ?pop - 1 = 3" by simp
  have la: "last [3 / 10, 1 / 2, 7 / 10, 1 :: real] = 1" by simp
  have ws: "length ?pop = length (odor_weights s None)" "odor_weights s None \<noteq> []"
    "0 < last (accumulate (odor_weights s None))"
    unfolding w acc by simp_all
  have ch: "choices ?pop (odor_weights s None) g = Inr (?pop ! ?i, g\<lparr>fpos := Suc (fpos g)\<rparr>)"
    using choices_ok(1)[OF ws, of g]
    unfolding w acc l la mult_1_right bisect_right_fixed_weights .
  have i: "?i < 4" by simp
  define ty where "ty = ?pop ! ?i"
  from odor_dict_index[OF i] obtain props where
    props: "dict_index ODOR_TYPES ty = Inr props" unfolding ty_def by blast
  have ty: "ty = (if ?u < 0.3 then ''organic''
                      else if ?u < 0.5 then ''chemical''
                      else if ?u < 0.7 then ''mold'' else ''none'')"
    unfolding ty_def by simp
  have ch': "choices ?pop (odor_weights s None) g = Inr (ty, g\<lparr>fpos := Suc (fpos g)\<rparr>)"
    unfolding ty_def by (rule ch)
  have "\<exists>r s' g'. OdorSensor_read s None g = Inr (r, s', g')
     \<and> odorType r = ty
     \<and> current_odor_type s' = odorType r
     \<and> 0 \<le> current_intensity s' \<and> current_intensity s' \<le> 1
     \<and> intensity r = round_py (current_intensity s') 3
     \<and> 0 \<le> intensity r \<and> intensity r \<le> 1"
    by (simp add: OdorSensor_read_def odor_population_eq ch' props split_def Let_def
          round_py_nonneg round_py_le_int[of _ 1, simplified])
  then show ?thesis unfolding ty .
qed

text \<open>
  Claim C10. With \<open>fill_level\<close> (and, for air quality, \<open>temperature\<close>) omitted, each of the
  three correlated sensors returns a reading and raises nothing: humidity is
  \<open>clamp(base + uniform(-var, var), 0, 100)\<close>, the AQI is
  \<open>clamp(base + uniform(-var, var), 0, 500)\<close>, and the odor type is chosen over
  organic, chemical, mold, none with the weights \<open>[0.3, 0.2, 0.2, 0.3]\<close>, that is by where the
  draw falls among the cumulative weights 0.3, 0.5 and 0.7; all outputs stay within their
  bounds. A uniform draw between \<open>-v\<close> and \<open>v\<close> lies in that interval.
\<close>

theorem uncorrelated_fallback:
  "(\<exists>r s' g'. HumiditySensor_read hs None hg = Inr (r, s', g')
      \<and> current_humidity s' =
          max 0 (min 100 (base_humidity hs
             + fst (rng_uniform (- humidity_variation hs) (humidity_variation hs) hg)))
      \<and> humidity r = round_py (current_humidity s') 2
      \<and> 0 \<le> current_humidity s' \<and> current_humidity s' \<le> 100
      \<and> 0 \<le> humidity r \<and> humidity r \<le> 100)
   \<and> (\<exists>r s' g'. AirQualitySensor_read qs None None qg = Inr (r, s', g')
      \<and> current_aqi s' =
          max 0 (min 500 (base_aqi qs + fst (rng_uniform (- aqi_variation qs) (aqi_variation qs) qg)))
      \<and> aqi r = round_py (current_aqi s') 2
      \<and> 0 \<le> current_aqi s' \<and> current_aqi s' \<le> 500
      \<and> 0 \<le> aqi r \<and> aqi r \<le> 500)
   \<and> odor_population None = [''organic'', ''chemical'', ''mold'', ''none'']
   \<and> odor_weights os None = [0.3, 0.2, 0.2, 0.3]
   \<and> (\<exists>r s' g'. OdorSensor_read os None og = Inr (r, s', g')
      \<and> odorType r = (if floats og (fpos og) < 0.3 then ''organic''
                      else if floats og (fpos og) < 0.5 then ''chemical''
                      else if floats og (fpos og) < 0.7 then ''mold'' else ''none'')
      \<and> intensity r = round_py (current_intensity s') 3
      \<and> 0 \<le> current_intensity s' \<and> current_intensity s' \<le> 1
      \<and> 0 \<le> intensity r \<and> intensity r \<le> 1)
   \<and> (rng_ok g \<and> 0 \<le> v \<longrightarrow>
        - v \<le> fst (rng_uniform (- v) v g) \<and> fst (rng_uniform (- v) v g) \<le> v)"
proof -
  have hum: "\<exists>r s' g'. HumiditySensor_read hs None hg = Inr (r, s', g')
      \<and> current_humidity s' =
          max 0 (min 100 (base_humidity hs
             + fst (rng_uniform (- humidity_variation hs) (humidity_variation hs) hg)))
      \<and> humidity r = round_py (current_humidity s') 2
      \<and> 0 \<le> current_humidity s' \<and> current_humidity s' \<le> 100
      \<and> 0 \<le> humidity r \<and> humidity r \<le> 100"
    using humidity_read_ok[of hs None hg] by (simp only: option.case) blast
  have aq: "\<exists>r s' g'. AirQualitySensor_read qs None None qg = Inr (r, s', g')
      \<and> current_aqi s' =
          max 0 (min 500 (base_aqi qs + fst (rng_uniform (- aqi_variation qs) (aqi_variation qs) qg)))
      \<and> aqi r = round_py (current_aqi s') 2
      \<and> 0 \<le> current_aqi s' \<and> current_aqi s' \<le> 500
      \<and> 0 \<le> aqi r \<and> aqi r \<le> 500"
    using air_quality_read_ok[of qs None None qg] by (simp only: option.case) blast
  have od: "\<exists>r s' g'. OdorSensor_read os None og = Inr (r, s', g')
      \<and> odorType r = (if floats og (fpos og) < 0.3 then ''organic''
                      else if floats og (fpos og) < 0.5 then ''chemical''
                      else if floats og (fpos og) < 0.7 then ''mold'' else ''none'')
      \<and> intensity r = round_py (current_intensity s') 3
      \<and> 0 \<le> current_intensity s' \<and> current_intensity s' \<le> 1
      \<and> 0 \<le> intensity r \<and> intensity r \<le> 1"
    using odor_read_none_type[of os og] by blast
  have u: "rng_ok g \<and> 0 \<le> v \<longrightarrow>
        - v \<le> fst (rng_uniform (- v) v g) \<and> fst (rng_uniform (- v) v g) \<le> v"
    using rng_uniform_range[of g "- v" v] by simp
  have p: "odor_population None = [''organic'', ''chemical'', ''mold'', ''none'']"
    by (rule odor_population_eq)
  have w: "odor_weights os None = [0.3, 0.2, 0.2, 0.3]" by (simp add: odor_weights_def)
  show ?thesis using hum aq od u p w by blast
qed

theorem uncorrelated_fallback_witness:
  "rng_ok (rng_const 0.5 0) \<and> (0::real) \<le> 5
   \<and> - 5 \<le> fst (rng_uniform (- 5) 5 (rng_const 0.5 0))
   \<and> fst (rng_uniform (- 5) 5 (rng_const 0.5 0)) \<le> 5
   \<and> (\<exists>r s' g'. HumiditySensor_read example_humidity_sensor None (rng_const 0.5 0) = Inr (r, s', g')
         \<and> current_humidity s' = 50 \<and> humidity r = 50)
   \<and> (\<exists>r s' g'. AirQualitySensor_read example_air_quality_sensor None None (rng_const 0.5 0)
                    = Inr (r, s', g')
         \<and> current_aqi s' = 50 \<and> aqi r = 50)
   \<and> (\<exists>r s' g'. OdorSensor_read example_odor_sensor None (rng_const 0.5 0) = Inr (r, s', g')
         \<and> odorType r = ''mold'')"
proof -
  note t = uncorrelated_fallback[of example_humidity_sensor "rng_const 0.5 0"
      example_air_quality_sensor "rng_const 0.5 0" example_odor_sensor "rng_const 0.5 0"
      "rng_const 0.5 0" 5]
  have ok: "rng_ok (rng_const 0.5 0)" by (simp add: rng_ok_def rng_const_def)
  have u: "fst (rng_uniform (- x) x (rng_const 0.5 0)) = 0" for x
    by (simp add: rng_uniform_def rng_random_def rng_const_def)
  have r50: "round_py 50 2 = 50" by (simp add: round_py_def round_half_even_def)
  have p: "base_humidity example_humidity_sensor = 50" "base_aqi example_air_quality_sensor = 50"
          "floats (rng_const 0.5 0) (fpos (rng_const 0.5 0)) = 0.5"
    by (simp_all add: example_humidity_sensor_def HumiditySensor_init_def
          example_air_quality_sensor_def AirQualitySensor_init_def rng_const_def)
  show ?thesis
    using t ok unfolding u p by (auto simp: r50)
qed








lemma recyclable_read_no_detection:
  "float_round 0.9 < floats g (fpos g) \<Longrightarrow>
     RecyclableSensor_read s stamp g = Inr (no_detection_result, s, g\<lparr>fpos := Suc (fpos g)\<rparr>)"
  by (simp add: RecyclableSensor_read_def rng_random_def)

lemma recyclable_read_detection_keys:
  assumes "\<not> float_round 0.9 < floats g (fpos g)" and "RecyclableSensor_read s stamp g = Inr (r, s', g')"
  shows "map fst r = [''materialDetected'', ''materialType'', ''materialSubtype'', ''weight'',
                      ''weightUnit'', ''density'', ''densityUnit'', ''tokensAwarded'', ''userId'']"
  using assms
  by (auto simp: RecyclableSensor_read_def rng_random_def Let_def split_def detection_result_def
           split: sum.splits if_splits)

text \<open>
  Claim C9. When \<open>RecyclableSensor.read\<close> takes the no-detection branch, the result holds
  exactly the keys \<open>materialDetected\<close> (False), \<open>materialType\<close> (None), \<open>materialSubtype\<close>
  (None), \<open>weight\<close> (0.0) and \<open>weightUnit\<close>; the keys \<open>tokensAwarded\<close>, \<open>density\<close> and
  \<open>userId\<close>, which every result of the detection branch has, are absent; the sensor and
  the token manager it refers to are returned unchanged; and the assembly of the composite
  reading supplies \<open>tokensAwarded = 0\<close> for the missing key.
\<close>

theorem no_detection_result_shape:
  "(float_round 0.9 < floats g (fpos g) \<longrightarrow>
      RecyclableSensor_read s stamp g = Inr (no_detection_result, s, g\<lparr>fpos := Suc (fpos g)\<rparr>))
   \<and> no_detection_result =
        [(''materialDetected'', PyBool False), (''materialType'', PyNone),
         (''materialSubtype'', PyNone), (''weight'', PyFloat 0), (''weightUnit'', PyStr ''kg'')]
   \<and> ''tokensAwarded'' \<notin> set (map fst no_detection_result)
   \<and> ''density'' \<notin> set (map fst no_detection_result)
   \<and> ''userId'' \<notin> set (map fst no_detection_result)
   \<and> (\<not> float_round 0.9 < floats g (fpos g) \<and> RecyclableSensor_read s stamp g = Inr (r, s', g') \<longrightarrow>
        {''tokensAwarded'', ''density'', ''userId''} \<subseteq> set (map fst r))
   \<and> combined_recyclable no_detection_result =
        Inr [(''materialDetected'', PyBool False), (''materialType'', PyNone),
             (''materialSubtype'', PyNone), (''weight'', PyFloat 0), (''weightUnit'', PyStr ''kg''),
             (''tokensAwarded'', PyInt 0)]"
proof -
  have a: "float_round 0.9 < floats g (fpos g) \<longrightarrow>
      RecyclableSensor_read s stamp g = Inr (no_detection_result, s, g\<lparr>fpos := Suc (fpos g)\<rparr>)"
    using recyclable_read_no_detection by blast
  have b: "\<not> float_round 0.9 < floats g (fpos g) \<and> RecyclableSensor_read s stamp g = Inr (r, s', g') \<longrightarrow>
        {''tokensAwarded'', ''density'', ''userId''} \<subseteq> set (map fst r)"
  proof
    assume h: "\<not> float_round 0.9 < floats g (fpos g) \<and> RecyclableSensor_read s stamp g = Inr (r, s', g')"
    then have "map fst r = [''materialDetected'', ''materialType'', ''materialSubtype'', ''weight'',
                      ''weightUnit'', ''density'', ''densityUnit'', ''tokensAwarded'', ''userId'']"
      using recyclable_read_detection_keys[of g s stamp r s' g'] by blast
    then show "{''tokensAwarded'', ''density'', ''userId''} \<subseteq> set (map fst r)"
      by simp
  qed
  have c: "combined_recyclable no_detection_result =
        Inr [(''materialDetected'', PyBool False), (''materialType'', PyNone),
             (''materialSubtype'', PyNone), (''weight'', PyFloat 0), (''weightUnit'', PyStr ''kg''),
             (''tokensAwarded'', PyInt 0)]"
    by (simp add: combined_recyclable_def no_detection_result_def dict_index_def dict_get_def)
  have d: "''tokensAwarded'' \<notin> set (map fst no_detection_result)"
    "''density'' \<notin> set (map fst no_detection_result)"
    "''userId'' \<notin> set (map fst no_detection_result)"
    by (simp_all add: no_detection_result_def)
  show ?thesis using a b c d no_detection_result_def by blast
qed

lemma float_round_zero: "float_round 0 = 0"
  by (simp add: float_round_def)

lemma float_round_big:
  assumes "2 ^ n \<le> \<bar>x\<bar>" and "\<bar>x\<bar> < 2 ^ Suc n" and "n \<le> 52"
  shows "float_round x = of_int (round_half_even (x * 2 ^ (52 - n))) / 2 ^ (52 - n)"
proof -
  have pos: "0 < \<bar>x\<bar>" using assms(1) by (smt (verit) zero_less_power)
  have x0: "x \<noteq> 0" using pos by auto
  have l1: "real n \<le> log 2 \<bar>x\<bar>"
    using assms(1) pos by (simp add: le_log_iff powr_realpow)
  have l2: "log 2 \<bar>x\<bar> < real n + 1"
  proof -
    have "(2::real) powr (real n + 1) = 2 ^ Suc n"
      by (simp add: powr_add powr_realpow)
    then have "\<bar>x\<bar> < 2 powr (real n + 1)" using assms(2) by simp
    then show ?thesis using pos by (simp add: log_less_iff)
  qed
  have e: "\<lfloor>log 2 \<bar>x\<bar>\<rfloor> = int n"
    using l1 l2 by (intro floor_unique) simp_all
  have q: "(2::real) powr (of_int (int n) - 52) = 1 / 2 ^ (52 - n)"
  proof -
    have "(2::real) powr (of_int (int n) - 52) = 2 powr (- real (52 - n))"
      using assms(3) by (simp add: of_nat_diff)
    also have "\<dots> = 1 / 2 powr (real (52 - n))" by (simp add: powr_minus_divide)
    also have "\<dots> = 1 / 2 ^ (52 - n)" by (simp add: powr_realpow)
    finally show ?thesis .
  qed
  have "float_round x = of_int (round_half_even (x / (2 powr (of_int \<lfloor>log 2 \<bar>x\<bar>\<rfloor> - 52))))
                          * 2 powr (of_int \<lfloor>log 2 \<bar>x\<bar>\<rfloor> - 52)"
    using x0 by (simp add: float_round_def Let_def)
  then show ?thesis unfolding e q by simp
qed

lemma float_round_small:
  assumes "1 / 2 ^ n \<le> \<bar>x\<bar>" and "\<bar>x\<bar> < 2 / 2 ^ n"
  shows "float_round x = of_int (round_half_even (x * 2 ^ (52 + n))) / 2 ^ (52 + n)"
proof -
  have pos: "0 < \<bar>x\<bar>" using assms(1) by (smt (verit) divide_pos_pos zero_less_power)
  have x0: "x \<noteq> 0" using pos by auto
  have p1: "(2::real) powr (- real n) = 1 / 2 ^ n"
    by (simp add: powr_minus_divide powr_realpow)
  have l1: "- real n \<le> log 2 \<bar>x\<bar>"
    using assms(1) pos by (simp add: le_log_iff p1)
  have l2: "log 2 \<bar>x\<bar> < - real n + 1"
  proof -
    have "(2::real) powr (- real n + 1) = 2 powr (- real n) * 2 powr 1"
      by (rule powr_add)
    then have "(2::real) powr (- real n + 1) = 2 / 2 ^ n"
      unfolding p1 by simp
    then have "\<bar>x\<bar> < 2 powr (- real n + 1)" using assms(2) by simp
    then show ?thesis using pos by (simp add: log_less_iff)
  qed
  have e: "\<lfloor>log 2 \<bar>x\<bar>\<rfloor> = - int n"
    using l1 l2 by (intro floor_unique) simp_all
  have q: "(2::real) powr (of_int (- int n) - 52) = 1 / 2 ^ (52 + n)"
  proof -
    have ex: "of_int (- int n) - 52 = - real (52 + n)" by simp
    have "(2::real) powr (of_int (- int n) - 52) = 2 powr (- real (52 + n))"
      by (simp only: ex)
    also have "\<dots> = 1 / 2 powr (real (52 + n))" by (simp only: powr_minus_divide)
    also have "\<dots> = 1 / 2 ^ (52 + n)" by (simp only: powr_realpow[OF zero_less_numeral])
    finally show ?thesis .
  qed
  have "float_round x = of_int (round_half_even (x / (2 powr (of_int \<lfloor>log 2 \<bar>x\<bar>\<rfloor> - 52))))
                          * 2 powr (of_int \<lfloor>log 2 \<bar>x\<bar>\<rfloor> - 52)"
    using x0 by (simp add: float_round_def Let_def)
  then show ?thesis unfolding e q by simp
qed

lemma float_round_values:
  "float_round 2 = 2" "float_round 4 = 4" "float_round 20 = 20" "float_round 22 = 22"
  "float_round 50 = 50"
  by (subst float_round_big[where n = 1], simp, simp, simp,
        simp add: round_half_even_def,
      subst float_round_big[where n = 2], simp, simp, simp,
        simp add: round_half_even_def,
      subst float_round_big[where n = 4], simp, simp, simp,
        simp add: round_half_even_def,
      subst float_round_big[where n = 4], simp, simp, simp,
        simp add: round_half_even_def,
      subst float_round_big[where n = 5], simp, simp, simp,
        simp add: round_half_even_def)

lemma float_round_0_7: "float_round 0.7 = 3152519739159347 / 4503599627370496"
  by (subst float_round_small[where n = 1], simp, simp, simp add: round_half_even_def)

lemma float_round_0_8: "float_round 0.8 = 3602879701896397 / 4503599627370496"
  by (subst float_round_small[where n = 1], simp, simp, simp add: round_half_even_def)

lemma float_round_0_2: "float_round 0.2 = 3602879701896397 / 18014398509481984"
  by (subst float_round_small[where n = 3], simp, simp, simp add: round_half_even_def)

lemma float_round_0_9: "float_round 0.9 = 8106479329266893 / 9007199254740992"
  by (subst float_round_small[where n = 1], simp, simp, simp add: round_half_even_def)

lemma float_drift_22:
  "float_round (float_round (float_round (float_round 0.8 * 22) + float_round (float_round 0.2 * 22)) + 0) = 22"
proof -
  have b: "float_round (3602879701896397 / 4503599627370496 * 22) = 2476979795053773 / 140737488355328"
    by (subst float_round_big[where n = 4], simp, simp, simp, simp add: round_half_even_def)
  have d: "float_round (3602879701896397 / 18014398509481984 * 22) = 2476979795053773 / 562949953421312"
    by (subst float_round_big[where n = 2], simp, simp, simp, simp add: round_half_even_def)
  have e: "float_round (2476979795053773 / 140737488355328 + 2476979795053773 / 562949953421312) = 22"
    by (subst float_round_big[where n = 4], simp, simp, simp, simp add: round_half_even_def)
  show ?thesis
    unfolding float_round_0_8 float_round_0_2 b d e by (simp add: float_round_values)
qed

lemma ex_temp_3:
  "TemperatureSensor_read_n 3 example_temp_sensor (rng_value_at 7 v) =
     ([\<lparr>temperature = 22, t_unit = ''Celsius'', isAnomaly = False, anomalyType = ''none''\<rparr>,
       \<lparr>temperature = 22, t_unit = ''Celsius'', isAnomaly = False, anomalyType = ''none''\<rparr>,
       \<lparr>temperature = 22, t_unit = ''Celsius'', isAnomaly = False, anomalyType = ''none''\<rparr>],
      example_temp_sensor\<lparr>normal_readings_count := 3\<rparr>,
      (rng_value_at 7 v)\<lparr>fpos := 6\<rparr>)"
  by (simp add: eval_nat_numeral example_temp_sensor_def TemperatureSensor_init_def rng_value_at_def
        TemperatureSensor_read_def temperature_is_anomaly_def temperature_update_def
        float_uniform_def rng_random_def Let_def round_py_def round_half_even_def
        float_round_values float_round_zero float_drift_22[simplified])

lemma ex_temp_forced:
  "TemperatureSensor_read (example_temp_sensor\<lparr>normal_readings_count := 3\<rparr>)
       ((rng_value_at 7 v)\<lparr>fpos := 6\<rparr>) =
     (\<lparr>temperature = round_py (float_round (50 + float_round (0 + float_round (20 * v)))) 2,
       t_unit = ''Celsius'',
       isAnomaly = (50 < float_round (50 + float_round (0 + float_round (20 * v)))
                    \<or> float_round (50 + float_round (0 + float_round (20 * v))) < 0),
       anomalyType = (if 50 < float_round (50 + float_round (0 + float_round (20 * v))) then ''high''
                      else if float_round (50 + float_round (0 + float_round (20 * v))) < 0
                           then ''low'' else ''none'')\<rparr>,
      example_temp_sensor\<lparr>normal_readings_count := 0,
         current_temperature := float_round (50 + float_round (0 + float_round (20 * v)))\<rparr>,
      (rng_value_at 7 v)\<lparr>fpos := 8\<rparr>)"
proof -
  have lit: "(1 / 2 :: real) < float_round (7 / 10)"
    using float_round_0_7 by simp
  show ?thesis
    using lit
    by (simp add: example_temp_sensor_def TemperatureSensor_init_def rng_value_at_def
          TemperatureSensor_read_def temperature_is_anomaly_def temperature_update_def
          float_uniform_def rng_random_def Let_def float_round_values)
qed

lemma float_offset_absorbed:
  "float_round (50 + float_round (0 + float_round (20 * (1 / 2 ^ 53)))) = 50"
proof -
  have a: "float_round (20 * (1 / 2 ^ 53)) = 20 / 2 ^ 53"
    by (subst float_round_small[where n = 49], simp, simp, simp add: round_half_even_def)
  have b: "float_round (0 + 20 / 2 ^ 53) = 20 / 2 ^ 53"
    by (subst float_round_small[where n = 49], simp, simp, simp add: round_half_even_def)
  have c: "float_round (50 + 20 / 2 ^ 53) = 50"
    by (subst float_round_big[where n = 5], simp, simp, simp, simp add: round_half_even_def)
  show ?thesis unfolding a b c ..
qed

text \<open>
  Claim C2. The class documents a forced anomaly after three normal readings, and \<open>read\<close>
  takes the anomaly branch once the counter has reached the threshold, but the flags
  compare the new value with the thresholds strictly. From the default sensor, three normal
  readings bring the counter to 3; when the forced reading then draws offset 0 the value is
  exactly \<open>anomaly_threshold_high\<close> and the reading says \<open>isAnomaly = False\<close>, type
  \<open>none\<close>. The same happens at the smallest non-zero draw, whose offset the float
  addition absorbs.
\<close>

theorem forced_reading_not_flagged:
  "rng_ok (rng_value_at 7 0) \<and> rng_ok (rng_value_at 7 (1 / 2 ^ 53))
   \<and> normal_readings_before_anomaly (fst (snd (TemperatureSensor_read_n 3 example_temp_sensor (rng_value_at 7 0))))
       = normal_readings_count (fst (snd (TemperatureSensor_read_n 3 example_temp_sensor (rng_value_at 7 0))))
   \<and> current_temperature (fst (snd (TemperatureSensor_read
         (fst (snd (TemperatureSensor_read_n 3 example_temp_sensor (rng_value_at 7 0))))
         (snd (snd (TemperatureSensor_read_n 3 example_temp_sensor (rng_value_at 7 0))))))) = 50
   \<and> normal_readings_count (fst (snd (TemperatureSensor_read
         (fst (snd (TemperatureSensor_read_n 3 example_temp_sensor (rng_value_at 7 0))))
         (snd (snd (TemperatureSensor_read_n 3 example_temp_sensor (rng_value_at 7 0))))))) = 0
   \<and> \<not> isAnomaly (fst (TemperatureSensor_read
         (fst (snd (TemperatureSensor_read_n 3 example_temp_sensor (rng_value_at 7 0))))
         (snd (snd (TemperatureSensor_read_n 3 example_temp_sensor (rng_value_at 7 0))))))
   \<and> anomalyType (fst (TemperatureSensor_read
         (fst (snd (TemperatureSensor_read_n 3 example_temp_sensor (rng_value_at 7 0))))
         (snd (snd (TemperatureSensor_read_n 3 example_temp_sensor (rng_value_at 7 0)))))) = ''none''
   \<and> \<not> isAnomaly (fst (TemperatureSensor_read
         (fst (snd (TemperatureSensor_read_n 3 example_temp_sensor (rng_value_at 7 (1 / 2 ^ 53)))))
         (snd (snd (TemperatureSensor_read_n 3 example_temp_sensor (rng_value_at 7 (1 / 2 ^ 53)))))))"
proof -
  have z: "float_round (50 + float_round (0 + float_round (20 * 0))) = 50"
    by (simp add: float_round_zero float_round_values)
  have ok: "rng_ok (rng_value_at 7 0)" "rng_ok (rng_value_at 7 (1 / 2 ^ 53))"
    by (simp_all add: rng_ok_def rng_value_at_def)
  have p: "normal_readings_before_anomaly (example_temp_sensor\<lparr>normal_readings_count := 3\<rparr>) = 3"
    by (simp add: example_temp_sensor_def TemperatureSensor_init_def)
  show ?thesis
    unfolding ex_temp_3 fst_conv snd_conv ex_temp_forced z float_offset_absorbed
    using ok p by simp
qed

lemma bisect_right_default_weights:
  "bisect_right [3 / 10, 7 / 10, 17 / 20, 19 / 20, 1] (1 / 2) 0 4 = 1"
proof -
  let ?a = "[3 / 10, 7 / 10, 17 / 20, 19 / 20, 1 :: real]"
  have "bisect_right ?a (1 / 2) 0 4 = bisect_right ?a (1 / 2) 0 2"
    by (rule bisect_right_lt) simp_all
  also have "\<dots> = bisect_right ?a (1 / 2) 0 1"
    by (rule bisect_right_lt) simp_all
  also have "\<dots> = bisect_right ?a (1 / 2) 1 1"
    by (rule bisect_right_ge[where mid = 0]) simp_all
  finally show ?thesis by (simp add: bisect_right_same)
qed

lemma example_sensor_facts:
  "detection_probabilities example_recyclable_sensor = default_detection_probabilities"
  "token_manager example_recyclable_sensor = Some example_ledger"
  "current_user_id example_recyclable_sensor = Some ''u1''"
  "award_condition example_recyclable_sensor"
  by (simp_all add: example_recyclable_sensor_def set_current_user_def RecyclableSensor_init_def
        award_condition_def)

lemma example_award:
  "award_tokens example_ledger ''u1'' ''plastic'' ''PET bottle'' (51 / 200) ''t'' =
     ((True, 51 / 100),
      example_ledger\<lparr>users := (users example_ledger)(''u1'' \<mapsto>
         \<lparr>user_id = ''u1'', name = ''John Smith'', token_balance = 51 / 100, redemption_history = []\<rparr>)\<rparr>)"
  by (simp add: award_tokens_def example_ledger_def example_token_manager_def register_user_def
        Let_def round_py_def round_half_even_def)

lemma example_choices:
  "choices (map fst default_detection_probabilities) (map snd default_detection_probabilities)
      (g\<lparr>floats := (\<lambda>i. 1 / 2)\<rparr>)
    = Inr (''plastic'', g\<lparr>floats := (\<lambda>i. 1 / 2), fpos := Suc (fpos g)\<rparr>)"
proof -
  have acc: "accumulate (map snd default_detection_probabilities) = [3 / 10, 7 / 10, 17 / 20, 19 / 20, 1]"
    by (simp add: default_detection_probabilities_def accumulate_def)
  have keys: "map fst default_detection_probabilities = [''paper'', ''plastic'', ''metal'', ''glass'', ''e-waste'']"
    by (simp add: default_detection_probabilities_def)
  have l: "length [''paper'', ''plastic'', ''metal'', ''glass'', ''e-waste''] - 1 = 4" by simp
  have la: "last [3 / 10, 7 / 10, 17 / 20, 19 / 20, 1 :: real] = 1" by simp
  have x: "(1 / 2 :: real) * 1 = 1 / 2" by simp
  have n: "[''paper'', ''plastic'', ''metal'', ''glass'', ''e-waste''] ! 1 = ''plastic''" by simp
  have pre: "length (map fst default_detection_probabilities) = length (map snd default_detection_probabilities)"
    "map snd default_detection_probabilities \<noteq> []"
    "0 < last (accumulate (map snd default_detection_probabilities))"
    unfolding acc by (simp_all add: default_detection_probabilities_def)
  have f: "floats (g\<lparr>floats := (\<lambda>i. 1 / 2)\<rparr>) (fpos (g\<lparr>floats := (\<lambda>i. 1 / 2)\<rparr>)) = 1 / 2" by simp
  show ?thesis
    using choices_ok(1)[OF pre, of "g\<lparr>floats := (\<lambda>i. 1 / 2)\<rparr>"]
    unfolding acc keys l la f x bisect_right_default_weights n by simp
qed

lemma example_recyclable_read:
  "RecyclableSensor_read example_recyclable_sensor ''t'' (rng_const 0.5 0) =
     Inr (detection_result ''plastic'' ''PET bottle'' (51 / 200) 35 (51 / 100) (Some ''u1''),
          example_recyclable_sensor\<lparr>token_manager :=
            Some (snd (award_tokens example_ledger ''u1'' ''plastic'' ''PET bottle'' (51 / 200) ''t''))\<rparr>,
          \<lparr>floats = (\<lambda>i. 1 / 2), fpos = 3, ints = (\<lambda>i. 0), ipos = 1\<rparr>)"
proof -
  have lit: "\<not> float_round (9 / 10) < (1 / 2 :: real)"
    using float_round_0_9 by simp
  have ch: "choices (map fst default_detection_probabilities) (map snd default_detection_probabilities)
      \<lparr>floats = (\<lambda>i. 1 / 2), fpos = Suc 0, ints = (\<lambda>i. 0), ipos = 0\<rparr>
    = Inr (''plastic'', \<lparr>floats = (\<lambda>i. 1 / 2), fpos = Suc (Suc 0), ints = (\<lambda>i. 0), ipos = 0\<rparr>)"
    using example_choices[of "\<lparr>floats = (\<lambda>i. 1 / 2), fpos = Suc 0, ints = (\<lambda>i. 0), ipos = 0\<rparr>"]
    by simp
  have di: "dict_index MATERIAL_TYPES ''plastic'' =
      Inr \<lparr>subtypes = [''PET bottle'', ''HDPE container'', ''plastic bag'', ''plastic packaging''],
                     weight_range = (1 / 100, 1 / 2), density = 35\<rparr>"
    by (simp add: dict_index_def MATERIAL_TYPES_def)
  have r: "round_py (51 / 200) 3 = 51 / 200"
    by (simp add: round_py_def round_half_even_def)
  have aw: "recyclable_award example_recyclable_sensor ''plastic'' ''PET bottle'' (51 / 200) ''t'' =
      (51 / 100, example_recyclable_sensor\<lparr>token_manager :=
            Some (snd (award_tokens example_ledger ''u1'' ''plastic'' ''PET bottle'' (51 / 200) ''t''))\<rparr>)"
    by (simp add: recyclable_award_def example_sensor_facts example_award)
  show ?thesis
    unfolding RecyclableSensor_read_def example_sensor_facts(1)
    using lit
    by (simp add: rng_random_def rng_const_def ch di choice_def
          rng_randbelow_def rng_uniform_def Let_def r aw example_sensor_facts)
qed



theorem no_detection_result_shape_witness:
  "float_round 0.9 < floats (rng_const 0.95 0) (fpos (rng_const 0.95 0))
   \<and> RecyclableSensor_read example_recyclable_sensor ''t'' (rng_const 0.95 0) =
       Inr (no_detection_result, example_recyclable_sensor, (rng_const 0.95 0)\<lparr>fpos := Suc 0\<rparr>)
   \<and> \<not> float_round 0.9 < floats (rng_const 0.5 0) (fpos (rng_const 0.5 0))
   \<and> {''tokensAwarded'', ''density'', ''userId''}
        \<subseteq> set (map fst (detection_result ''plastic'' ''PET bottle'' 0.255 35 0.51 (Some ''u1'')))"
proof -
  have l1: "float_round 0.9 < floats (rng_const 0.95 0) (fpos (rng_const 0.95 0))"
    using float_round_0_9 by (simp add: rng_const_def)
  have l2: "\<not> float_round 0.9 < floats (rng_const 0.5 0) (fpos (rng_const 0.5 0))"
    using float_round_0_9 by (simp add: rng_const_def)
  have p: "fpos (rng_const 0.95 0) = 0" by (simp add: rng_const_def)
  have rd: "RecyclableSensor_read example_recyclable_sensor ''t'' (rng_const 0.5 0) =
       Inr (detection_result ''plastic'' ''PET bottle'' 0.255 35 0.51 (Some ''u1''),
            example_recyclable_sensor\<lparr>token_manager :=
              Some (snd (award_tokens example_ledger ''u1'' ''plastic'' ''PET bottle'' 0.255 ''t''))\<rparr>,
            \<lparr>floats = (\<lambda>i. 0.5), fpos = 3, ints = (\<lambda>i. 0), ipos = 1\<rparr>)"
    using example_recyclable_read by simp
  note a = no_detection_result_shape[of "rng_const 0.95 0" example_recyclable_sensor "''t''"]
  note b = no_detection_result_shape[where g = "rng_const 0.5 0" and s = example_recyclable_sensor
      and stamp = "''t''"
      and r = "detection_result ''plastic'' ''PET bottle'' 0.255 35 0.51 (Some ''u1'')"
      and s' = "example_recyclable_sensor\<lparr>token_manager :=
              Some (snd (award_tokens example_ledger ''u1'' ''plastic'' ''PET bottle'' 0.255 ''t''))\<rparr>"
      and g' = "\<lparr>floats = (\<lambda>i. 0.5), fpos = 3, ints = (\<lambda>i. 0), ipos = 1\<rparr>"]
  show ?thesis
    using a b l1 l2 rd unfolding p by blast
qed

end
